theory Spec2Isabelle
  imports Complex_Main
begin

section \<open>JavaScript values used by the SDK\<close>

text \<open>
  A JavaScript number is modelled as an exact real or the value \<open>NaN\<close>. The infinities and
  the rounding of IEEE doubles are outside the model: every quantity the SDK computes with
  (seconds and milliseconds since the epoch, retry counts, delays) is far below \<open>2 ^ 53\<close>,
  where double arithmetic on whole numbers is exact.
\<close>

datatype js_number = NaN | Num real

text \<open>\<open>a - b\<close>, \<open>a * b\<close>, \<open>a > b\<close> and \<open>a < b\<close> on numbers: arithmetic with \<open>NaN\<close> is
  \<open>NaN\<close>, every comparison with \<open>NaN\<close> is false.\<close>

fun js_sub :: "js_number \<Rightarrow> js_number \<Rightarrow> js_number" where
  "js_sub (Num a) (Num b) = Num (a - b)"
| "js_sub _ _ = NaN"

fun js_mul :: "js_number \<Rightarrow> js_number \<Rightarrow> js_number" where
  "js_mul (Num a) (Num b) = Num (a * b)"
| "js_mul _ _ = NaN"

fun js_gt :: "js_number \<Rightarrow> js_number \<Rightarrow> bool" where
  "js_gt (Num a) (Num b) = (a > b)"
| "js_gt _ _ = False"

fun js_lt :: "js_number \<Rightarrow> js_number \<Rightarrow> bool" where
  "js_lt (Num a) (Num b) = (a < b)"
| "js_lt _ _ = False"

text \<open>Truthiness of a number (\<open>if (x)\<close>, \<open>x || d\<close>): \<open>0\<close> and \<open>NaN\<close> are falsy.\<close>

fun num_truthy :: "js_number \<Rightarrow> bool" where
  "num_truthy NaN = False"
| "num_truthy (Num x) = (x \<noteq> 0)"

text \<open>
  A value produced by \<open>JSON.parse\<close>. An object is the list of its own properties, each key
  once. \<open>undefined\<close> is not a JSON value: a possibly undefined value is a \<open>json option\<close>.
\<close>

datatype json =
    JNull
  | JBool bool
  | JNum real
  | JStr string
  | JArr "json list"
  | JObj "(string \<times> json) list"

text \<open>Truthiness of a possibly undefined value.\<close>

fun truthy :: "json option \<Rightarrow> bool" where
  "truthy None = False"
| "truthy (Some JNull) = False"
| "truthy (Some (JBool b)) = b"
| "truthy (Some (JNum x)) = (x \<noteq> 0)"
| "truthy (Some (JStr s)) = (s \<noteq> [])"
| "truthy (Some (JArr _)) = True"
| "truthy (Some (JObj _)) = True"

text \<open>
  Optional chaining \<open>v?.k\<close> for the property names the SDK reads (\<open>error\<close>, \<open>message\<close>,
  \<open>code\<close>, \<open>type\<close>, \<open>exp\<close>): \<open>undefined\<close> and \<open>null\<close> give \<open>undefined\<close>, an object
  gives its property, and numbers, booleans, strings and arrays have no property of
  these names.
\<close>

fun opt_member :: "json option \<Rightarrow> string \<Rightarrow> json option" where
  "opt_member (Some (JObj kvs)) k = map_of kvs k"
| "opt_member _ k = None"

section \<open>Strings and \<open>Number.parseInt\<close>\<close>

text \<open>
  A string is the list of its UTF-8 bytes. \<open>utf16_length\<close> is the JavaScript \<open>length\<close> of
  the string (UTF-16 code units): one unit for each code point of up to three bytes, two
  for each four-byte code point; continuation bytes (\<open>0x80\<close> to \<open>0xBF\<close>) count nothing.
\<close>

definition utf16_units :: "char \<Rightarrow> nat" where
  "utf16_units c =
     (let b = (of_char c :: nat)
      in if 128 \<le> b \<and> b < 192 then 0 else if 240 \<le> b then 2 else 1)"

definition utf16_length :: "string \<Rightarrow> nat" where
  "utf16_length s = sum_list (map utf16_units s)"

text \<open>
  \<open>s.split(c)\<close> for a one-character separator, as a scan from the left: the first
  argument of \<open>split_scan\<close> is the piece read so far. The result is never empty, and
  \<open>"".split(c) = [""]\<close>.
\<close>

fun split_scan :: "char \<Rightarrow> string \<Rightarrow> string \<Rightarrow> string list" where
  "split_scan c cur [] = [cur]"
| "split_scan c cur (x # xs) =
     (if x = c then cur # split_scan c [] xs else split_scan c (cur @ [x]) xs)"

definition split_on :: "char \<Rightarrow> string \<Rightarrow> string list" where
  "split_on c s = split_scan c [] s"

definition is_digit :: "char \<Rightarrow> bool" where
  "is_digit c = (48 \<le> (of_char c :: nat) \<and> (of_char c :: nat) \<le> 57)"

definition digit_val :: "char \<Rightarrow> nat" where
  "digit_val c = of_char c - 48"

definition dec_value :: "string \<Rightarrow> nat" where
  "dec_value ds = foldl (\<lambda>a c. 10 * a + digit_val c) 0 ds"

text \<open>
  The leading white space \<open>parseInt\<close> skips (ECMAScript \<open>WhiteSpace\<close> and
  \<open>LineTerminator\<close>), as UTF-8: TAB, LF, VT, FF, CR, SP, U+00A0, U+1680, U+2000 to U+200A,
  U+2028, U+2029, U+202F, U+205F, U+3000 and U+FEFF.
\<close>

definition ws_len :: "string \<Rightarrow> nat" where
  "ws_len s =
     (case map of_char (take 3 s) :: nat list of
        [] \<Rightarrow> 0
      | b0 # r \<Rightarrow>
          if b0 \<in> {9, 10, 11, 12, 13, 32} then 1
          else if b0 = 194 \<and> take 1 r = [160] then 2
          else if b0 = 225 \<and> r = [154, 128] then 3
          else if b0 = 226 \<and> take 1 r = [128] \<and> length r = 2
                  \<and> (128 \<le> r ! 1 \<and> r ! 1 \<le> 138 \<or> r ! 1 \<in> {168, 169, 175}) then 3
          else if b0 = 226 \<and> r = [129, 159] then 3
          else if b0 = 227 \<and> r = [128, 128] then 3
          else if b0 = 239 \<and> r = [187, 191] then 3
          else 0)"

function trim_start :: "string \<Rightarrow> string" where
  "trim_start s = (if ws_len s = 0 \<or> s = [] then s else trim_start (drop (ws_len s) s))"
  by pat_completeness auto
termination
  by (relation "measure length") auto

declare trim_start.simps [simp del]

text \<open>
  \<open>Number.parseInt(s, 10)\<close>: skip leading white space, read an optional sign, then the
  longest run of decimal digits; no digit gives \<open>NaN\<close>. Whatever follows the digits is
  ignored.
\<close>

definition parseInt :: "string \<Rightarrow> js_number" where
  "parseInt input =
     (let s = trim_start input;
          neg = (take 1 s = ''-'');
          r = (if take 1 s = ''-'' \<or> take 1 s = ''+'' then drop 1 s else s);
          z = takeWhile is_digit r
      in if z = [] then NaN
         else Num (of_int (if neg then - int (dec_value z) else int (dec_value z))))"

text \<open>
  \<open>String(n)\<close> and the template literal \<open>`${n}`\<close> for a whole number \<open>n\<close> (below
  \<open>10 ^ 21\<close> in absolute value, where JavaScript prints plain decimal digits).
\<close>

definition digit_char :: "nat \<Rightarrow> char" where
  "digit_char d = ''0123456789'' ! d"

fun digits_of :: "nat \<Rightarrow> string" where
  "digits_of n =
     (if n < 10 then [digit_char n]
      else digits_of (n div 10) @ [digit_char (n mod 10)])"

declare digits_of.simps [simp del]

definition String_of_int :: "int \<Rightarrow> string" where
  "String_of_int n = (if n < 0 then CHR ''-'' # digits_of (nat (- n)) else digits_of (nat n))"

section \<open>Errors (\<open>src/error.ts\<close>)\<close>

text \<open>
  (In this copy of the repository the classes stand in the second half of
  \<open>src/src/yoto.ts\<close>.)
  The error classes, each with the arguments of its constructor in the source's order;
  an argument that may be \<open>undefined\<close> is an option. \<open>OtherError\<close> is any thrown value
  that is not a \<open>YotoError\<close>, by name: the \<open>TypeError\<close> of a failed \<open>fetch\<close>, the
  \<open>AbortError\<close> of a timeout, the \<open>SyntaxError\<close> of \<open>JSON.parse\<close>.
\<close>

datatype js_error =
    YotoAuthenticationError json "json option" "string option" "string option" "string option"
  | YotoAPIError json int "json option" "json option" "string option" "string option"
      "string option"
  | YotoConnectionError json
  | YotoRateLimitError json "js_number option" "json option" "string option" "string option"
      "string option"
  | OtherError string

text \<open>\<open>error instanceof YotoAuthenticationError\<close> and its siblings.\<close>

fun instanceof_YotoAuthenticationError :: "js_error \<Rightarrow> bool" where
  "instanceof_YotoAuthenticationError (YotoAuthenticationError _ _ _ _ _) = True"
| "instanceof_YotoAuthenticationError _ = False"

fun instanceof_YotoConnectionError :: "js_error \<Rightarrow> bool" where
  "instanceof_YotoConnectionError (YotoConnectionError _) = True"
| "instanceof_YotoConnectionError _ = False"

fun instanceof_YotoRateLimitError :: "js_error \<Rightarrow> bool" where
  "instanceof_YotoRateLimitError (YotoRateLimitError _ _ _ _ _ _) = True"
| "instanceof_YotoRateLimitError _ = False"

text \<open>The fields the \<open>YotoError\<close> constructor stores.\<close>

fun statusCode :: "js_error \<Rightarrow> int option" where
  "statusCode (YotoAuthenticationError _ _ _ _ _) = Some 401"
| "statusCode (YotoAPIError _ st _ _ _ _ _) = Some st"
| "statusCode (YotoConnectionError _) = None"
| "statusCode (YotoRateLimitError _ _ _ _ _ _) = Some 429"
| "statusCode (OtherError _) = None"

fun retryAfter :: "js_error \<Rightarrow> js_number option" where
  "retryAfter (YotoRateLimitError _ ra _ _ _ _) = ra"
| "retryAfter _ = None"

section \<open>The HTTP request pipeline (\<open>src/http-client.ts\<close>)\<close>

definition DEFAULT_BASE_URL :: string where
  "DEFAULT_BASE_URL = ''https://api.yotoplay.com''"

definition DEFAULT_TIMEOUT :: int where
  "DEFAULT_TIMEOUT = 30000"

definition DEFAULT_MAX_RETRIES :: int where
  "DEFAULT_MAX_RETRIES = 3"

text \<open>
  \<open>YotoConfig\<close>: every field is optional (\<open>None\<close> is \<open>undefined\<close>). \<open>timeout\<close> and
  \<open>maxRetries\<close> are whole numbers. The \<open>headers\<close> field and the auth provider are stored
  by the constructor as they are and take no part in the retry control; they are left
  out of the client record.
\<close>

record YotoConfig =
  config_baseUrl :: "string option"
  config_timeout :: "int option"
  config_maxRetries :: "int option"

record HttpClient =
  baseUrl :: string
  timeout :: int
  maxRetries :: int

text \<open>\<open>x || d\<close> on an optional string and on an optional whole number.\<close>

fun or_default_string :: "string option \<Rightarrow> string \<Rightarrow> string" where
  "or_default_string None d = d"
| "or_default_string (Some s) d = (if s = [] then d else s)"

fun or_default_int :: "int option \<Rightarrow> int \<Rightarrow> int" where
  "or_default_int None d = d"
| "or_default_int (Some n) d = (if n = 0 then d else n)"

text \<open>The constructor of \<open>HttpClient\<close>.\<close>

definition new_HttpClient :: "YotoConfig \<Rightarrow> HttpClient" where
  "new_HttpClient config =
     \<lparr> baseUrl = or_default_string (config_baseUrl config) DEFAULT_BASE_URL,
       timeout = or_default_int (config_timeout config) DEFAULT_TIMEOUT,
       maxRetries = or_default_int (config_maxRetries config) DEFAULT_MAX_RETRIES \<rparr>"

text \<open>
  What the pipeline reads of a \<open>Response\<close>: the status, the status text, the two headers
  it asks for (\<open>headers.get\<close> gives \<open>null\<close>, here \<open>None\<close>, for a missing header) and the
  body as \<open>response.json()\<close> parses it (\<open>None\<close> when that call rejects).
\<close>

record http_response =
  status :: int
  statusText :: string
  header_X_Request_Id :: "string option"
  header_Retry_After :: "string option"
  json_body :: "json option"

definition ok :: "http_response \<Rightarrow> bool" where
  "ok response = (200 \<le> status response \<and> status response \<le> 299)"

text \<open>
  \<open>handleErrorResponse\<close> always throws; the model returns the error it throws.
\<close>

definition handleErrorResponse :: "http_response \<Rightarrow> string \<Rightarrow> string \<Rightarrow> js_error" where
  "handleErrorResponse response url meth =
     (let requestId = (case header_X_Request_Id response of
                         None \<Rightarrow> None
                       | Some v \<Rightarrow> if v = [] then None else Some v);
          errorData = json_body response;
          detail = opt_member errorData ''error'';
          message = (case opt_member detail ''message'' of
                       Some m \<Rightarrow>
                         if truthy (Some m) then m
                         else if statusText response \<noteq> [] then JStr (statusText response)
                         else JStr ''Unknown error''
                     | None \<Rightarrow>
                         if statusText response \<noteq> [] then JStr (statusText response)
                         else JStr ''Unknown error'');
          code = opt_member detail ''code''
      in if status response = 401 then
           YotoAuthenticationError message code requestId (Some url) (Some meth)
         else if status response = 429 then
           (let retryAfterSeconds = (case header_Retry_After response of
                                       None \<Rightarrow> None
                                     | Some v \<Rightarrow> if v = [] then None else Some (parseInt v))
            in YotoRateLimitError message retryAfterSeconds code requestId (Some url) (Some meth))
         else
           YotoAPIError message (status response) (opt_member detail ''type'') code requestId
             (Some url) (Some meth))"

text \<open>
  \<open>calculateRetryDelay(attempt, retryAfter)\<close>, in milliseconds. The third argument is the
  value \<open>Math.random()\<close> returns in this call.
\<close>

definition calculateRetryDelay :: "nat \<Rightarrow> js_number option \<Rightarrow> real \<Rightarrow> real" where
  "calculateRetryDelay attempt retry_after rnd =
     (case retry_after of
        Some (Num r) \<Rightarrow>
          if num_truthy (Num r) then r * 1000
          else (let baseDelay = 1000;
                    exponentialDelay = baseDelay * 2 ^ attempt;
                    jitter = rnd * 1000
                in min (exponentialDelay + jitter) 10000)
      | _ \<Rightarrow>
          (let baseDelay = 1000;
               exponentialDelay = baseDelay * 2 ^ attempt;
               jitter = rnd * 1000
           in min (exponentialDelay + jitter) 10000))"

text \<open>
  What the world does in one attempt: the auth provider's \<open>getAccessToken\<close> rejects
  with an error (\<open>AuthProvider\<close> is an interface, so any error), or \<open>fetch\<close> rejects
  (a \<open>TypeError\<close> for a network failure, an \<open>AbortError\<close> when the timeout fired), or
  \<open>fetch\<close> resolves with a response. The request body is taken to be serialisable.
\<close>

datatype attempt_outcome =
    TokenThrows js_error
  | FetchThrows string
  | Responds http_response

text \<open>What a call of \<open>request\<close> does that can be observed, in order.\<close>

datatype event = GetAccessToken | Fetch | Sleep real

text \<open>The \<open>try\<close> block of one attempt: what it returns or throws, and its events.\<close>

definition try_block ::
  "attempt_outcome \<Rightarrow> string \<Rightarrow> string \<Rightarrow> (js_error + json) \<times> event list" where
  "try_block outcome url meth =
     (case outcome of
        TokenThrows e \<Rightarrow> (Inl e, [GetAccessToken])
      | FetchThrows name \<Rightarrow> (Inl (OtherError name), [GetAccessToken, Fetch])
      | Responds response \<Rightarrow>
          (if \<not> ok response then Inl (handleErrorResponse response url meth)
           else (case json_body response of
                   None \<Rightarrow> Inl (OtherError ''SyntaxError'')
                 | Some data \<Rightarrow> Inr data),
           [GetAccessToken, Fetch]))"

text \<open>
  The loop \<open>for (let attempt = 0; attempt <= this.maxRetries; attempt++)\<close> from the
  given attempt on, with the \<open>catch\<close> block and the \<open>throw\<close> after the loop.
  \<open>outcomes k\<close> is what the world does in attempt \<open>k\<close>, \<open>rnd k\<close> what \<open>Math.random()\<close>
  returns there.
\<close>

function request_loop ::
  "HttpClient \<Rightarrow> (nat \<Rightarrow> attempt_outcome) \<Rightarrow> (nat \<Rightarrow> real) \<Rightarrow> string \<Rightarrow> string
     \<Rightarrow> nat \<Rightarrow> js_error option \<Rightarrow> (js_error + json) \<times> event list" where
  "request_loop client outcomes rnd url meth attempt lastError =
     (if int attempt \<le> maxRetries client then
        (case try_block (outcomes attempt) url meth of
           (Inr data, evs) \<Rightarrow> (Inr data, evs)
         | (Inl error, evs) \<Rightarrow>
             if instanceof_YotoAuthenticationError error
                \<or> instanceof_YotoConnectionError error then (Inl error, evs)
             else if int attempt < maxRetries client then
               (let delay = (if instanceof_YotoRateLimitError error
                             then calculateRetryDelay attempt (retryAfter error) (rnd attempt)
                             else calculateRetryDelay attempt None (rnd attempt));
                    rest = request_loop client outcomes rnd url meth (Suc attempt) (Some error)
                in (fst rest, evs @ Sleep delay # snd rest))
             else (Inl error, evs))
      else
        (Inl (case lastError of
                Some e \<Rightarrow> e
              | None \<Rightarrow> YotoConnectionError (JStr ''Request failed after retries'')),
         []))"
  by pat_completeness auto
termination
  by (relation "measure (\<lambda>(client, outcomes, rnd, url, meth, attempt, lastError).
        nat (maxRetries client + 1 - int attempt))") auto

declare request_loop.simps [simp del]

text \<open>
  \<open>request(path, options)\<close>. \<open>url\<close> is the string \<open>buildUrl\<close> returns; the second
  argument is \<open>options.method\<close>.
\<close>

definition request ::
  "HttpClient \<Rightarrow> (nat \<Rightarrow> attempt_outcome) \<Rightarrow> (nat \<Rightarrow> real) \<Rightarrow> string \<Rightarrow> string option
     \<Rightarrow> (js_error + json) \<times> event list" where
  "request client outcomes rnd url options_method =
     request_loop client outcomes rnd url (or_default_string options_method ''GET'') 0 None"

text \<open>The number of network attempts (calls of \<open>fetch\<close>) and the sleeps of a run.\<close>

definition fetches :: "event list \<Rightarrow> nat" where
  "fetches evs = length (filter (\<lambda>e. e = Fetch) evs)"

fun is_Sleep :: "event \<Rightarrow> bool" where
  "is_Sleep (Sleep _) = True"
| "is_Sleep _ = False"

definition sleeps :: "event list \<Rightarrow> event list" where
  "sleeps evs = filter is_Sleep evs"

section \<open>The platform\<close>

text \<open>
  The built-in functions of the JavaScript runtime that the SDK calls and that are not
  part of the repository. They are parameters of the model:
  \<^item> \<open>JSON_parse s\<close> is \<open>JSON.parse(s)\<close>, \<open>None\<close> when it throws a \<open>SyntaxError\<close>;
  \<^item> \<open>JSON_stringify v\<close> is \<open>JSON.stringify(v)\<close>;
  \<^item> \<open>atob s\<close> is \<open>atob(s)\<close>, \<open>None\<close> when it throws;
  \<^item> \<open>hmac_sha256 key msg\<close> is the digest of
    \<open>createHmac("sha256", key).update(msg, "utf8")\<close>, read as a big-endian number
    (its low 256 bits are used);
  \<^item> \<open>ToNumber v\<close> is the numeric conversion of a string, an array or an object,
    \<open>None\<close> when it throws a \<open>TypeError\<close>.
\<close>

record platform =
  JSON_parse :: "string \<Rightarrow> json option"
  JSON_stringify :: "json \<Rightarrow> string"
  atob :: "string \<Rightarrow> string option"
  hmac_sha256 :: "string \<Rightarrow> string \<Rightarrow> nat"
  ToNumber :: "json \<Rightarrow> js_number option"

text \<open>
  Property access \<open>v.k\<close> for the property names the SDK reads: a \<open>TypeError\<close> on
  \<open>null\<close>, the property of an object, \<open>undefined\<close> on any other value.
\<close>

fun member :: "json \<Rightarrow> string \<Rightarrow> js_error + json option" where
  "member JNull k = Inl (OtherError ''TypeError'')"
| "member (JObj kvs) k = Inr (map_of kvs k)"
| "member _ k = Inr None"

text \<open>The numeric conversion of the operand of \<open>*\<close>.\<close>

fun to_number :: "platform \<Rightarrow> json option \<Rightarrow> js_number option" where
  "to_number P None = Some NaN"
| "to_number P (Some JNull) = Some (Num 0)"
| "to_number P (Some (JBool b)) = Some (Num (if b then 1 else 0))"
| "to_number P (Some (JNum x)) = Some (Num x)"
| "to_number P (Some v) = ToNumber P v"

section \<open>Webhook verification (\<open>src/webhooks.ts\<close>)\<close>

definition TIMESTAMP_TOLERANCE :: real where
  "TIMESTAMP_TOLERANCE = 300"

text \<open>
  The errors \<open>constructEvent\<close> throws, by message: "No signature provided", "Invalid
  signature format", "Timestamp outside tolerance window", "Signature verification
  failed", "Invalid JSON payload"; and the \<open>RangeError\<close> of \<open>timingSafeEqual\<close> on
  buffers of different byte lengths.
\<close>

datatype webhook_error =
    NoSignatureProvided
  | InvalidSignatureFormat
  | TimestampOutsideTolerance
  | SignatureVerificationFailed
  | InvalidJSONPayload
  | TimingSafeEqualRangeError

text \<open>\<open>digest("hex")\<close>: the 64 lower-case hexadecimal digits of a 256-bit digest.\<close>

definition hex_char :: "nat \<Rightarrow> char" where
  "hex_char d = ''0123456789abcdef'' ! d"

fun hex_digits :: "nat \<Rightarrow> nat \<Rightarrow> string" where
  "hex_digits 0 n = []"
| "hex_digits (Suc k) n = hex_digits k (n div 16) @ [hex_char (n mod 16)]"

definition hex_digest :: "nat \<Rightarrow> string" where
  "hex_digest n = hex_digits 64 n"

definition computeSignature :: "platform \<Rightarrow> string \<Rightarrow> string \<Rightarrow> string \<Rightarrow> string" where
  "computeSignature P timestamp payload secret =
     (let signedPayload = timestamp @ ''.'' @ payload
      in hex_digest (hmac_sha256 P secret signedPayload))"

text \<open>
  \<open>secureCompare\<close>: the lengths compared first are JavaScript string lengths; the
  buffers \<open>timingSafeEqual\<close> compares hold the UTF-8 bytes, and it throws when their
  lengths differ.
\<close>

definition secureCompare :: "string \<Rightarrow> string \<Rightarrow> webhook_error + bool" where
  "secureCompare a b =
     (if utf16_length a \<noteq> utf16_length b then Inr False
      else if length a \<noteq> length b then Inl TimingSafeEqualRangeError
      else Inr (a = b))"

text \<open>
  The loop over the parts of the header: \<open>const [key, value] = part.split("=")\<close> takes
  the first two pieces (\<open>value\<close> is \<open>undefined\<close> when there is no \<open>=\<close>), and a later
  \<open>t\<close> or \<open>v1\<close> overwrites an earlier one. The state is the pair of \<open>timestamp\<close> and
  \<open>providedSignature\<close>.
\<close>

fun parts_loop ::
  "string list \<Rightarrow> string option \<times> string option \<Rightarrow> string option \<times> string option" where
  "parts_loop [] acc = acc"
| "parts_loop (part # parts) (timestamp, providedSignature) =
     (let pieces = split_on (CHR ''='') part;
          key = hd pieces;
          val = (if 2 \<le> length pieces then Some (pieces ! 1) else None)
      in if key = ''t'' then parts_loop parts (val, providedSignature)
         else if key = ''v1'' then parts_loop parts (timestamp, val)
         else parts_loop parts (timestamp, providedSignature))"

text \<open>
  \<open>constructEvent(payload, signature, secret, options)\<close>. The second argument is what
  \<open>Date.now()\<close> returns (milliseconds), the last one is \<open>options.tolerance\<close>.
\<close>

definition constructEvent ::
  "platform \<Rightarrow> int \<Rightarrow> string \<Rightarrow> string \<Rightarrow> string \<Rightarrow> js_number option
     \<Rightarrow> webhook_error + json" where
  "constructEvent P now payload signature secret options_tolerance =
     (let tolerance = (case options_tolerance of
                         None \<Rightarrow> Num TIMESTAMP_TOLERANCE
                       | Some t \<Rightarrow> t)
      in if signature = [] then Inl NoSignatureProvided
         else
           (case parts_loop (split_on (CHR '','') signature) (None, None) of
              (Some timestamp, Some providedSignature) \<Rightarrow>
                if timestamp = [] \<or> providedSignature = [] then Inl InvalidSignatureFormat
                else
                  (let timestampSeconds = parseInt timestamp;
                       currentTime = Num (of_int (now div 1000))
                   in if js_gt (js_sub currentTime timestampSeconds) tolerance
                      then Inl TimestampOutsideTolerance
                      else
                        (case secureCompare (computeSignature P timestamp payload secret)
                                providedSignature of
                           Inl e \<Rightarrow> Inl e
                         | Inr False \<Rightarrow> Inl SignatureVerificationFailed
                         | Inr True \<Rightarrow>
                             (case JSON_parse P payload of
                                None \<Rightarrow> Inl InvalidJSONPayload
                              | Some event \<Rightarrow> Inr event)))
            | _ \<Rightarrow> Inl InvalidSignatureFormat))"

text \<open>
  \<open>generateTestHeaderString({payload, secret, timestamp})\<close>: the payload is a string or
  an object, the timestamp a whole number of seconds or \<open>undefined\<close>.
\<close>

datatype payload_arg = PayloadString string | PayloadObject json

definition generateTestHeaderString ::
  "platform \<Rightarrow> int \<Rightarrow> payload_arg \<Rightarrow> string \<Rightarrow> int option \<Rightarrow> string" where
  "generateTestHeaderString P now payload secret timestamp =
     (let payloadString = (case payload of
                             PayloadString s \<Rightarrow> s
                           | PayloadObject v \<Rightarrow> JSON_stringify P v);
          timestampSeconds = or_default_int timestamp (now div 1000);
          signature = computeSignature P (String_of_int timestampSeconds) payloadString secret
      in ''t='' @ String_of_int timestampSeconds @ '',v1='' @ signature)"

section \<open>Tokens and auth providers (\<open>src/auth.ts\<close>, \<open>src/auth-provider.ts\<close>)\<close>

text \<open>
  (In this copy of the repository \<open>auth.ts\<close> is \<open>src/unnamed/part_003\<close> and
  \<open>auth-provider.ts\<close> is the last part of \<open>src/src/resources/family.ts\<close>.)
  \<open>decodeJWT\<close>: every failure inside its \<open>try\<close> is rethrown as
  \<open>Error("Failed to decode JWT: ...")\<close>.
\<close>

definition decodeJWT :: "platform \<Rightarrow> string \<Rightarrow> js_error + json" where
  "decodeJWT P token =
     (let parts = split_on (CHR ''.'') token
      in if length parts \<noteq> 3 then Inl (OtherError ''Error: Failed to decode JWT'')
         else
           (let base64Url = parts ! 1
            in if base64Url = [] then Inl (OtherError ''Error: Failed to decode JWT'')
               else
                 (let base64 = map (\<lambda>c. if c = CHR ''-'' then CHR ''+''
                                         else if c = CHR ''_'' then CHR ''/'' else c) base64Url
                  in case atob P base64 of
                       None \<Rightarrow> Inl (OtherError ''Error: Failed to decode JWT'')
                     | Some jsonPayload \<Rightarrow>
                         (case JSON_parse P jsonPayload of
                            None \<Rightarrow> Inl (OtherError ''Error: Failed to decode JWT'')
                          | Some claims \<Rightarrow> Inr claims))))"

text \<open>
  \<open>isTokenExpired(accessToken)\<close>; the second argument is what \<open>Date.now()\<close> returns.
  Whatever is thrown inside its \<open>try\<close> makes it return \<open>true\<close>.
\<close>

definition isTokenExpired :: "platform \<Rightarrow> int \<Rightarrow> string \<Rightarrow> bool" where
  "isTokenExpired P now accessToken =
     (case decodeJWT P accessToken of
        Inl e \<Rightarrow> True
      | Inr decoded \<Rightarrow>
          (case member decoded ''exp'' of
             Inl e \<Rightarrow> True
           | Inr decoded_exp \<Rightarrow>
               if \<not> truthy decoded_exp then True
               else (case to_number P decoded_exp of
                       None \<Rightarrow> True
                     | Some n \<Rightarrow> js_lt (js_mul n (Num 1000)) (Num (of_int now + 30000)))))"

text \<open>\<open>TokenResponse\<close>, at its declared type.\<close>

record TokenResponse =
  access_token :: string
  refresh_token :: string
  expires_in :: "real option"
  token_type :: "string option"

text \<open>
  What the token endpoint does with a request: \<open>fetch\<close> rejects (with an error of the
  given name), or it resolves with a response, of which the model keeps \<open>response.ok\<close>,
  the body text and the body as \<open>response.json()\<close> reads it (\<open>None\<close> when that rejects).
\<close>

datatype token_fetch = TokenFetchThrows string | TokenFetchResponds bool string "TokenResponse option"

text \<open>
  \<open>refreshAccessToken(authBaseUrl, clientId, refreshToken, timeout)\<close>. The first
  argument is the token endpoint: the outcome of the POST for a URL, a client id and a
  refresh token.
\<close>

definition refreshAccessToken ::
  "(string \<Rightarrow> string \<Rightarrow> string \<Rightarrow> token_fetch) \<Rightarrow> string \<Rightarrow> string \<Rightarrow> string \<Rightarrow> int
     \<Rightarrow> js_error + TokenResponse" where
  "refreshAccessToken endpoint authBaseUrl clientId refreshToken timeout_ms =
     (let url = authBaseUrl @ ''/oauth/token''
      in case endpoint url clientId refreshToken of
           TokenFetchThrows name \<Rightarrow>
             Inl (YotoConnectionError (JStr (''Token refresh request failed: '' @ name)))
         | TokenFetchResponds response_ok errorText data \<Rightarrow>
             if \<not> response_ok then
               Inl (YotoAuthenticationError (JStr (''Token refresh failed: '' @ errorText))
                      None None None None)
             else
               (case data of
                  None \<Rightarrow>
                    Inl (YotoConnectionError
                           (JStr ''Token refresh request failed: SyntaxError''))
                | Some tokens \<Rightarrow> Inr tokens))"

text \<open>
  The two provider classes. \<open>RefreshableAuthProvider\<close> holds \<open>authBaseUrl\<close>,
  \<open>clientId\<close>, \<open>timeout\<close> and the token slot \<open>tokens\<close>.
\<close>

datatype auth_provider =
    StaticTokenProvider string
  | RefreshableAuthProvider string string int TokenResponse

text \<open>
  \<open>getAccessToken()\<close>: what it returns or throws, the provider afterwards, and the
  refresh tokens sent to the token endpoint by this call, in order.
\<close>

fun getAccessToken ::
  "platform \<Rightarrow> int \<Rightarrow> (string \<Rightarrow> string \<Rightarrow> string \<Rightarrow> token_fetch) \<Rightarrow> auth_provider
     \<Rightarrow> (js_error + string) \<times> auth_provider \<times> string list" where
  "getAccessToken P now endpoint (StaticTokenProvider accessToken) =
     (Inr accessToken, StaticTokenProvider accessToken, [])"
| "getAccessToken P now endpoint (RefreshableAuthProvider authBaseUrl clientId timeout_ms tokens) =
     (if isTokenExpired P now (access_token tokens) then
        (case refreshAccessToken endpoint authBaseUrl clientId (refresh_token tokens) timeout_ms of
           Inl e \<Rightarrow>
             (Inl e, RefreshableAuthProvider authBaseUrl clientId timeout_ms tokens,
              [refresh_token tokens])
         | Inr tokens' \<Rightarrow>
             (Inr (access_token tokens'),
              RefreshableAuthProvider authBaseUrl clientId timeout_ms tokens',
              [refresh_token tokens]))
      else
        (Inr (access_token tokens),
         RefreshableAuthProvider authBaseUrl clientId timeout_ms tokens, []))"

section \<open>A platform instance for worked examples\<close>

text \<open>
  The event of the repository's webhook test, signed with the secret \<open>test_secret\<close>, and
  five tokens whose claims are \<open>{"exp":1700003600}\<close>, \<open>{"exp":1700000020}\<close>,
  \<open>{"sub":"user"}\<close>, \<open>{"exp":1700000030}\<close> and \<open>{"exp":"soon"}\<close>.
  \<open>sample_platform\<close> knows the values of the built-ins on these inputs: the
  HMAC-SHA256 digests are the real ones for the timestamps \<open>1700000000\<close>,
  \<open>1699999700\<close>, \<open>1699999699\<close> and \<open>abc\<close>, and the numeric conversion of the string
  \<open>soon\<close> is \<open>NaN\<close>, as in JavaScript. On any other input it answers with a failure,
  the empty string, a zero digest or \<open>NaN\<close>; no example relies on those.
\<close>

definition sample_payload :: string where
  \<open>sample_payload = ''{"id":"evt_123","type":"content.created","data":{}}''\<close>

definition sample_event :: json where
  "sample_event =
     JObj [(''id'', JStr ''evt_123''), (''type'', JStr ''content.created''), (''data'', JObj [])]"

definition token_valid :: string where
  "token_valid = ''eyJhbGciOiJIUzI1NiIsInR5cCI6IkpXVCJ9.eyJleHAiOjE3MDAwMDM2MDB9.sig''"

definition token_expiring :: string where
  "token_expiring = ''eyJhbGciOiJIUzI1NiIsInR5cCI6IkpXVCJ9.eyJleHAiOjE3MDAwMDAwMjB9.sig''"

definition token_no_exp :: string where
  "token_no_exp = ''eyJhbGciOiJIUzI1NiIsInR5cCI6IkpXVCJ9.eyJzdWIiOiJ1c2VyIn0.sig''"

definition token_boundary :: string where
  "token_boundary = ''eyJhbGciOiJIUzI1NiIsInR5cCI6IkpXVCJ9.eyJleHAiOjE3MDAwMDAwMzB9.sig''"

definition token_exp_text :: string where
  "token_exp_text = ''eyJhbGciOiJIUzI1NiIsInR5cCI6IkpXVCJ9.eyJleHAiOiJzb29uIn0.sig''"

definition sample_platform :: platform where
  \<open>sample_platform =
     \<lparr> JSON_parse = (\<lambda>s. if s = sample_payload then Some sample_event
                         else if s = ''{"exp":1700003600}'' then Some (JObj [(''exp'', JNum 1700003600)])
                         else if s = ''{"exp":1700000020}'' then Some (JObj [(''exp'', JNum 1700000020)])
                         else if s = ''{"sub":"user"}'' then Some (JObj [(''sub'', JStr ''user'')])
                         else if s = ''{"exp":1700000030}'' then Some (JObj [(''exp'', JNum 1700000030)])
                         else if s = ''{"exp":"soon"}'' then Some (JObj [(''exp'', JStr ''soon'')])
                         else None),
       JSON_stringify = (\<lambda>v. if v = sample_event then sample_payload else []),
       atob = (\<lambda>s. if s = ''eyJleHAiOjE3MDAwMDM2MDB9'' then Some ''{"exp":1700003600}''
                    else if s = ''eyJleHAiOjE3MDAwMDAwMjB9'' then Some ''{"exp":1700000020}''
                    else if s = ''eyJzdWIiOiJ1c2VyIn0'' then Some ''{"sub":"user"}''
                    else if s = ''eyJleHAiOjE3MDAwMDAwMzB9'' then Some ''{"exp":1700000030}''
                    else if s = ''eyJleHAiOiJzb29uIn0'' then Some ''{"exp":"soon"}''
                    else None),
       hmac_sha256 = (\<lambda>key msg.
          if key = ''test_secret'' \<and> msg = ''1700000000.'' @ sample_payload
          then 0x6933c55725b6d16dd7bb9b8ad4e011d2443a8b84a76bfedf91e2f9e146f17b34
          else if key = ''test_secret'' \<and> msg = ''1699999700.'' @ sample_payload
          then 0x696c9e785a77a0419659ee7a7735d92b0fd48213a62e48aa53306fde3bf327be
          else if key = ''test_secret'' \<and> msg = ''1699999699.'' @ sample_payload
          then 0xdf710558d264e79616eaf4aa3a4c40d4d0f14671fd6013627c8663a7da2fbd13
          else if key = ''test_secret'' \<and> msg = ''abc.'' @ sample_payload
          then 0x14116e26eb8fdb99d012c1d6ccb6e51300cbba3f2c26f3e29ac79fd881a7fc4b
          else 0),
       ToNumber = (\<lambda>v. Some NaN) \<rparr>\<close>

section \<open>The retry loop, step by step\<close>

text \<open>
  One unfolding of the loop for each way an attempt can end: the error is rethrown at
  once, the attempt is retried after a sleep, the last attempt ends the call, a parsed
  body is returned, or the loop is not entered.
\<close>

lemma loop_propagates:
  assumes "int a \<le> maxRetries client"
    and "try_block (outcomes a) url meth = (Inl e, evs)"
    and "instanceof_YotoAuthenticationError e \<or> instanceof_YotoConnectionError e"
  shows "request_loop client outcomes rnd url meth a le = (Inl e, evs)"
  using assms by (subst request_loop.simps) auto

lemma loop_retries:
  assumes "int a < maxRetries client"
    and "try_block (outcomes a) url meth = (Inl e, evs)"
    and "\<not> instanceof_YotoAuthenticationError e" "\<not> instanceof_YotoConnectionError e"
  shows "request_loop client outcomes rnd url meth a le =
           (fst (request_loop client outcomes rnd url meth (Suc a) (Some e)),
            evs @ Sleep (calculateRetryDelay a (retryAfter e) (rnd a))
              # snd (request_loop client outcomes rnd url meth (Suc a) (Some e)))"
  using assms by (subst request_loop.simps) (cases e; simp add: Let_def)

lemma loop_last:
  assumes "int a = maxRetries client"
    and "try_block (outcomes a) url meth = (r, evs)"
  shows "request_loop client outcomes rnd url meth a le = (r, evs)"
  using assms by (subst request_loop.simps) (cases r; simp)

lemma loop_success:
  assumes "int a \<le> maxRetries client"
    and "try_block (outcomes a) url meth = (Inr d, evs)"
  shows "request_loop client outcomes rnd url meth a le = (Inr d, evs)"
  using assms by (subst request_loop.simps) simp

lemma loop_not_entered:
  assumes "\<not> int a \<le> maxRetries client"
  shows "request_loop client outcomes rnd url meth a le =
     (Inl (case le of
             Some e \<Rightarrow> e
           | None \<Rightarrow> YotoConnectionError (JStr ''Request failed after retries'')), [])"
  using assms by (subst request_loop.simps) simp

lemma try_block_not_ok:
  assumes "\<not> ok response"
  shows "try_block (Responds response) url meth
     = (Inl (handleErrorResponse response url meth), [GetAccessToken, Fetch])"
  using assms by (simp add: try_block_def)

lemma handle_401:
  assumes "status response = 401"
  shows "handleErrorResponse response url meth =
     YotoAuthenticationError
       (case opt_member (opt_member (json_body response) ''error'') ''message'' of
          Some m \<Rightarrow> if truthy (Some m) then m
                    else if statusText response \<noteq> [] then JStr (statusText response)
                    else JStr ''Unknown error''
        | None \<Rightarrow> if statusText response \<noteq> [] then JStr (statusText response)
                  else JStr ''Unknown error'')
       (opt_member (opt_member (json_body response) ''error'') ''code'')
       (case header_X_Request_Id response of
          None \<Rightarrow> None | Some v \<Rightarrow> if v = [] then None else Some v)
       (Some url) (Some meth)"
  using assms by (simp add: handleErrorResponse_def Let_def)

lemma handle_429_no_header:
  assumes "status r = 429" "header_Retry_After r = None"
  shows "instanceof_YotoRateLimitError (handleErrorResponse r url meth)
         \<and> \<not> instanceof_YotoAuthenticationError (handleErrorResponse r url meth)
         \<and> \<not> instanceof_YotoConnectionError (handleErrorResponse r url meth)
         \<and> retryAfter (handleErrorResponse r url meth) = None"
  using assms by (simp add: handleErrorResponse_def Let_def)

text \<open>
  When every attempt is answered by a 429 without a \<open>Retry-After\<close> header, the loop
  entered at attempt \<open>a\<close> with \<open>n\<close> retries left fetches \<open>n + 1\<close> times, sleeps \<open>n\<close>
  times and throws the error of the last response.
\<close>

lemma loop_all_429:
  assumes "\<And>k. status (resp k) = 429 \<and> header_Retry_After (resp k) = None"
    and "a + n = N" and "maxRetries client = int N"
  shows "fst (request_loop client (\<lambda>k. Responds (resp k)) rnd url meth a le)
            = Inl (handleErrorResponse (resp N) url meth)
         \<and> fetches (snd (request_loop client (\<lambda>k. Responds (resp k)) rnd url meth a le)) = n + 1
         \<and> length (sleeps (snd (request_loop client (\<lambda>k. Responds (resp k)) rnd url meth a le)))
             = n"
  using assms(2)
proof (induction n arbitrary: a le)
  case 0
  have nok: "\<not> ok (resp a)" using assms(1) [of a] by (simp add: ok_def)
  from 0 have "int a = maxRetries client" using assms(3) by simp
  then have "request_loop client (\<lambda>k. Responds (resp k)) rnd url meth a le
      = (Inl (handleErrorResponse (resp a) url meth), [GetAccessToken, Fetch])"
    by (rule loop_last) (simp add: try_block_not_ok nok)
  with 0 show ?case by (simp add: fetches_def sleeps_def)
next
  case (Suc n)
  let ?e = "handleErrorResponse (resp a) url meth"
  have nok: "\<not> ok (resp a)" using assms(1) [of a] by (simp add: ok_def)
  have lt: "int a < maxRetries client" using Suc.prems assms(3) by simp
  have kind: "\<not> instanceof_YotoAuthenticationError ?e \<and> \<not> instanceof_YotoConnectionError ?e"
    using handle_429_no_header [of "resp a" url meth] assms(1) [of a] by simp
  have step: "request_loop client (\<lambda>k. Responds (resp k)) rnd url meth a le =
      (fst (request_loop client (\<lambda>k. Responds (resp k)) rnd url meth (Suc a) (Some ?e)),
       [GetAccessToken, Fetch]
         @ Sleep (calculateRetryDelay a (retryAfter ?e) (rnd a))
         # snd (request_loop client (\<lambda>k. Responds (resp k)) rnd url meth (Suc a) (Some ?e)))"
    by (rule loop_retries) (simp_all add: lt try_block_not_ok nok kind)
  have "Suc a + n = N" using Suc.prems by simp
  from Suc.IH [OF this, of "Some ?e"] show ?case
    by (simp add: step fetches_def sleeps_def)
qed

section \<open>Claims about the request pipeline\<close>

text \<open>
  Claim C1, as amended. A \<open>YotoConnectionError\<close> thrown inside an attempt is never
  retried: \<open>request\<close> rethrows it right after that attempt, with no sleep and no further
  attempt; inside the \<open>try\<close> block only the auth provider's \<open>getAccessToken\<close> can throw
  one. A network failure of the pipeline's own \<open>fetch\<close> (a timeout abort included) is
  not a \<open>YotoConnectionError\<close>: while \<open>attempt < maxRetries\<close> the loop sleeps for the
  backoff delay and goes on with the next attempt, and on the last attempt the failure
  is rethrown as it is.
\<close>

theorem connection_error_not_retried:
  "(int a \<le> maxRetries client \<and> outcomes a = TokenThrows (YotoConnectionError m) \<longrightarrow>
      request_loop client outcomes rnd url meth a le
        = (Inl (YotoConnectionError m), [GetAccessToken]))
   \<and> (try_block outcome url meth = (Inl e, evs) \<and> instanceof_YotoConnectionError e \<longrightarrow>
        outcome = TokenThrows e)
   \<and> (int a < maxRetries client \<and> outcomes a = FetchThrows name \<longrightarrow>
        request_loop client outcomes rnd url meth a le
          = (fst (request_loop client outcomes rnd url meth (Suc a) (Some (OtherError name))),
             [GetAccessToken, Fetch, Sleep (calculateRetryDelay a None (rnd a))]
               @ snd (request_loop client outcomes rnd url meth (Suc a)
                        (Some (OtherError name)))))
   \<and> (int a = maxRetries client \<and> outcomes a = FetchThrows name \<longrightarrow>
        request_loop client outcomes rnd url meth a le
          = (Inl (OtherError name), [GetAccessToken, Fetch]))"
proof (intro conjI impI)
  assume h: "int a \<le> maxRetries client \<and> outcomes a = TokenThrows (YotoConnectionError m)"
  show "request_loop client outcomes rnd url meth a le
        = (Inl (YotoConnectionError m), [GetAccessToken])"
    by (rule loop_propagates) (use h in \<open>simp_all add: try_block_def\<close>)
next
  assume h: "try_block outcome url meth = (Inl e, evs) \<and> instanceof_YotoConnectionError e"
  show "outcome = TokenThrows e"
  proof (cases outcome)
    case (TokenThrows x)
    with h show ?thesis by (simp add: try_block_def)
  next
    case (FetchThrows x)
    with h show ?thesis by (auto simp: try_block_def)
  next
    case (Responds x)
    with h show ?thesis
      by (auto simp: try_block_def handleErrorResponse_def Let_def
          split: if_splits option.splits)
  qed
next
  assume h: "int a < maxRetries client \<and> outcomes a = FetchThrows name"
  have "request_loop client outcomes rnd url meth a le
      = (fst (request_loop client outcomes rnd url meth (Suc a) (Some (OtherError name))),
         [GetAccessToken, Fetch]
           @ Sleep (calculateRetryDelay a (retryAfter (OtherError name)) (rnd a))
           # snd (request_loop client outcomes rnd url meth (Suc a) (Some (OtherError name))))"
    by (rule loop_retries) (use h in \<open>simp_all add: try_block_def\<close>)
  then show "request_loop client outcomes rnd url meth a le
          = (fst (request_loop client outcomes rnd url meth (Suc a) (Some (OtherError name))),
             [GetAccessToken, Fetch, Sleep (calculateRetryDelay a None (rnd a))]
               @ snd (request_loop client outcomes rnd url meth (Suc a)
                        (Some (OtherError name))))"
    by simp
next
  assume h: "int a = maxRetries client \<and> outcomes a = FetchThrows name"
  show "request_loop client outcomes rnd url meth a le
          = (Inl (OtherError name), [GetAccessToken, Fetch])"
    by (rule loop_last) (use h in \<open>simp_all add: try_block_def\<close>)
qed

text \<open>
  The theorem at work: with \<open>maxRetries = 1\<close>, a token refresh that fails with a
  \<open>YotoConnectionError\<close> ends the call in the first attempt before any \<open>fetch\<close>, and a
  \<open>fetch\<close> that is aborted by the timeout in the last attempt is rethrown as the
  \<open>AbortError\<close> it is.
\<close>

theorem connection_error_not_retried_witness:
  "request_loop \<lparr>baseUrl = DEFAULT_BASE_URL, timeout = 30000, maxRetries = 1\<rparr>
       (\<lambda>k. TokenThrows (YotoConnectionError (JStr ''Token refresh request failed: TypeError'')))
       (\<lambda>k. 0) ''https://api.yotoplay.com/content'' ''GET'' 0 None
     = (Inl (YotoConnectionError (JStr ''Token refresh request failed: TypeError'')),
        [GetAccessToken])
   \<and> request_loop \<lparr>baseUrl = DEFAULT_BASE_URL, timeout = 30000, maxRetries = 1\<rparr>
       (\<lambda>k. FetchThrows ''AbortError'')
       (\<lambda>k. 0) ''https://api.yotoplay.com/content'' ''GET'' 1 None
     = (Inl (OtherError ''AbortError''), [GetAccessToken, Fetch])"
proof -
  have c1: "request_loop \<lparr>baseUrl = DEFAULT_BASE_URL, timeout = 30000, maxRetries = 1\<rparr>
       (\<lambda>k. TokenThrows (YotoConnectionError (JStr ''Token refresh request failed: TypeError'')))
       (\<lambda>k. 0) ''https://api.yotoplay.com/content'' ''GET'' 0 None
     = (Inl (YotoConnectionError (JStr ''Token refresh request failed: TypeError'')),
        [GetAccessToken])"
    using connection_error_not_retried
      [where a = 0 and client = "\<lparr>baseUrl = DEFAULT_BASE_URL, timeout = 30000, maxRetries = 1\<rparr>"
         and outcomes = "\<lambda>k. TokenThrows
               (YotoConnectionError (JStr ''Token refresh request failed: TypeError''))"
         and m = "JStr ''Token refresh request failed: TypeError''"
         and rnd = "\<lambda>k. 0" and url = "''https://api.yotoplay.com/content''"
         and meth = "''GET''" and le = None]
    by simp
  have c2: "request_loop \<lparr>baseUrl = DEFAULT_BASE_URL, timeout = 30000, maxRetries = 1\<rparr>
       (\<lambda>k. FetchThrows ''AbortError'')
       (\<lambda>k. 0) ''https://api.yotoplay.com/content'' ''GET'' 1 None
     = (Inl (OtherError ''AbortError''), [GetAccessToken, Fetch])"
    using connection_error_not_retried
      [where a = 1 and client = "\<lparr>baseUrl = DEFAULT_BASE_URL, timeout = 30000, maxRetries = 1\<rparr>"
         and outcomes = "\<lambda>k. FetchThrows ''AbortError''" and name = "''AbortError''"
         and rnd = "\<lambda>k. 0" and url = "''https://api.yotoplay.com/content''"
         and meth = "''GET''" and le = None]
    by simp
  from c1 c2 show ?thesis by simp
qed

text \<open>
  Claim C1 as stated fails. With the default configuration, a first attempt whose
  \<open>fetch\<close> fails at network level (\<open>TypeError\<close>) and a second one that is aborted by
  the timeout (\<open>AbortError\<close>) are both followed by a sleep and a further attempt; the
  third attempt succeeds and \<open>request\<close> returns its body.
\<close>

theorem fetch_failure_retried_counterexample:
  "request (new_HttpClient \<lparr>config_baseUrl = None, config_timeout = None,
                            config_maxRetries = None\<rparr>)
       (\<lambda>k. if k = 0 then FetchThrows ''TypeError''
            else if k = 1 then FetchThrows ''AbortError''
            else Responds \<lparr>status = 200, statusText = ''OK'', header_X_Request_Id = None,
                   header_Retry_After = None, json_body = Some (JObj [])\<rparr>)
       (\<lambda>k. 0) ''https://api.yotoplay.com/content'' None
     = (Inr (JObj []),
        [GetAccessToken, Fetch, Sleep 1000, GetAccessToken, Fetch, Sleep 2000,
         GetAccessToken, Fetch])"
proof -
  let ?c = "new_HttpClient \<lparr>config_baseUrl = None, config_timeout = None,
                             config_maxRetries = None\<rparr>"
  let ?o = "\<lambda>k::nat. if k = 0 then FetchThrows ''TypeError''
            else if k = 1 then FetchThrows ''AbortError''
            else Responds \<lparr>status = 200, statusText = ''OK'', header_X_Request_Id = None,
                   header_Retry_After = None, json_body = Some (JObj [])\<rparr>"
  let ?u = "''https://api.yotoplay.com/content''"
  have mr: "maxRetries ?c = 3"
    by (simp add: new_HttpClient_def DEFAULT_MAX_RETRIES_def)
  have l2: "request_loop ?c ?o (\<lambda>k. 0) ?u ''GET'' (Suc (Suc 0)) (Some (OtherError ''AbortError''))
      = (Inr (JObj []), [GetAccessToken, Fetch])"
    by (rule loop_success) (simp_all add: mr try_block_def ok_def)
  have l1: "request_loop ?c ?o (\<lambda>k. 0) ?u ''GET'' (Suc 0) (Some (OtherError ''TypeError''))
      = (Inr (JObj []), [GetAccessToken, Fetch, Sleep 2000, GetAccessToken, Fetch])"
    by (subst loop_retries [where e = "OtherError ''AbortError''" and evs = "[GetAccessToken, Fetch]"])
      (simp_all add: mr try_block_def l2 calculateRetryDelay_def)
  have l0: "request_loop ?c ?o (\<lambda>k. 0) ?u ''GET'' 0 None
      = (Inr (JObj []), [GetAccessToken, Fetch, Sleep 1000, GetAccessToken, Fetch, Sleep 2000,
         GetAccessToken, Fetch])"
    by (subst loop_retries [where e = "OtherError ''TypeError''" and evs = "[GetAccessToken, Fetch]"])
      (simp_all add: mr try_block_def l1 calculateRetryDelay_def)
  then show ?thesis by (simp add: request_def)
qed

text \<open>
  Claim C3, as amended. Let the pipeline be constructed with \<open>maxRetries = N\<close> and let
  every attempt be answered by a 429 without a \<open>Retry-After\<close> header. For \<open>N \<ge> 1\<close>,
  \<open>request\<close> fetches exactly \<open>N + 1\<close> times, sleeps \<open>N\<close> times and throws the rate-limit
  error of the last response. For \<open>N = 0\<close> the constructor takes the default of 3
  retries, so \<open>request\<close> fetches 4 times and throws the rate-limit error of the fourth
  response.
\<close>

theorem request_always_429_attempts:
  assumes "\<forall>k. status (resp k) = 429 \<and> header_Retry_After (resp k) = None"
    and "client = new_HttpClient (config\<lparr>config_maxRetries := Some (int N)\<rparr>)"
    and "run = request client (\<lambda>k. Responds (resp k)) rnd url options_method"
    and "meth = or_default_string options_method ''GET''"
  shows "(N \<noteq> 0 \<longrightarrow>
            fst run = Inl (handleErrorResponse (resp N) url meth)
            \<and> instanceof_YotoRateLimitError (handleErrorResponse (resp N) url meth)
            \<and> fetches (snd run) = N + 1 \<and> length (sleeps (snd run)) = N)
         \<and> (N = 0 \<longrightarrow>
            fst run = Inl (handleErrorResponse (resp 3) url meth)
            \<and> instanceof_YotoRateLimitError (handleErrorResponse (resp 3) url meth)
            \<and> fetches (snd run) = 4 \<and> length (sleeps (snd run)) = 3)"
proof -
  define N' where "N' = (if N = 0 then 3 else N)"
  have mr: "maxRetries client = int N'"
    using assms(2) by (simp add: N'_def new_HttpClient_def DEFAULT_MAX_RETRIES_def)
  have r: "\<And>k. status (resp k) = 429 \<and> header_Retry_After (resp k) = None"
    using assms(1) by simp
  have kind: "instanceof_YotoRateLimitError (handleErrorResponse (resp N') url meth)"
    using handle_429_no_header [of "resp N'" url meth] r by simp
  have "fst run = Inl (handleErrorResponse (resp N') url meth)
        \<and> fetches (snd run) = N' + 1 \<and> length (sleeps (snd run)) = N'"
    using loop_all_429 [of resp 0 N' N' client rnd url meth None] r mr
    by (simp add: assms(3,4) request_def)
  with kind show ?thesis by (cases "N = 0") (simp_all add: N'_def)
qed

theorem request_always_429_attempts_witness:
  "fetches (snd (request (new_HttpClient \<lparr>config_baseUrl = None, config_timeout = None,
                            config_maxRetries = Some 2\<rparr>)
        (\<lambda>k. Responds \<lparr>status = 429, statusText = ''Too Many Requests'',
                header_X_Request_Id = None, header_Retry_After = None, json_body = None\<rparr>)
        (\<lambda>k. 0) ''https://api.yotoplay.com/content'' None)) = 3
   \<and> length (sleeps (snd (request (new_HttpClient \<lparr>config_baseUrl = None, config_timeout = None,
                            config_maxRetries = Some 2\<rparr>)
        (\<lambda>k. Responds \<lparr>status = 429, statusText = ''Too Many Requests'',
                header_X_Request_Id = None, header_Retry_After = None, json_body = None\<rparr>)
        (\<lambda>k. 0) ''https://api.yotoplay.com/content'' None))) = 2"
  using request_always_429_attempts
    [where resp = "\<lambda>k. \<lparr>status = 429, statusText = ''Too Many Requests'',
                header_X_Request_Id = None, header_Retry_After = None, json_body = None\<rparr>"
       and config = "\<lparr>config_baseUrl = None, config_timeout = None, config_maxRetries = None\<rparr>"
       and N = 2 and rnd = "\<lambda>k. 0" and url = "''https://api.yotoplay.com/content''"
       and options_method = None and meth = "''GET''"
       and client = "new_HttpClient \<lparr>config_baseUrl = None, config_timeout = None,
                            config_maxRetries = Some 2\<rparr>"
       and run = "request (new_HttpClient \<lparr>config_baseUrl = None, config_timeout = None,
                            config_maxRetries = Some 2\<rparr>)
        (\<lambda>k. Responds \<lparr>status = 429, statusText = ''Too Many Requests'',
                header_X_Request_Id = None, header_Retry_After = None, json_body = None\<rparr>)
        (\<lambda>k. 0) ''https://api.yotoplay.com/content'' None"]
  by simp

text \<open>
  Claim C3 as stated fails at \<open>N = 0\<close>: a pipeline constructed with \<open>maxRetries = 0\<close>
  that always receives a 429 without \<open>Retry-After\<close> fetches 4 times, not \<open>0 + 1\<close>.
\<close>

theorem request_maxRetries_zero_counterexample:
  "fetches (snd (request (new_HttpClient \<lparr>config_baseUrl = None, config_timeout = None,
                            config_maxRetries = Some 0\<rparr>)
        (\<lambda>k. Responds \<lparr>status = 429, statusText = ''Too Many Requests'',
                header_X_Request_Id = None, header_Retry_After = None, json_body = None\<rparr>)
        (\<lambda>k. 0) ''https://api.yotoplay.com/content'' None)) = 4
   \<and> fetches (snd (request (new_HttpClient \<lparr>config_baseUrl = None, config_timeout = None,
                            config_maxRetries = Some 0\<rparr>)
        (\<lambda>k. Responds \<lparr>status = 429, statusText = ''Too Many Requests'',
                header_X_Request_Id = None, header_Retry_After = None, json_body = None\<rparr>)
        (\<lambda>k. 0) ''https://api.yotoplay.com/content'' None)) \<noteq> 0 + 1"
proof -
  have mr: "maxRetries (new_HttpClient \<lparr>config_baseUrl = None, config_timeout = None,
                            config_maxRetries = Some 0\<rparr>) = int 3"
    by (simp add: new_HttpClient_def DEFAULT_MAX_RETRIES_def)
  show ?thesis
    using loop_all_429 [where resp = "\<lambda>k. \<lparr>status = 429, statusText = ''Too Many Requests'',
                header_X_Request_Id = None, header_Retry_After = None, json_body = None\<rparr>"
       and a = 0 and n = 3 and N = 3, OF _ _ mr]
    by (simp add: request_def)
qed

text \<open>
  Claim C7, as amended. Whenever the loop retries attempt \<open>a\<close>, it sleeps for
  \<open>calculateRetryDelay a\<close> of the error's \<open>retryAfter\<close>. For a rate-limit error whose
  \<open>Retry-After\<close> value is a number \<open>r\<close> other than 0 the delay is exactly \<open>r * 1000\<close>
  milliseconds, with no jitter and no cap. In every other case (no \<open>Retry-After\<close>
  value, a value of 0, a value that does not parse, or an error that is not a rate-limit
  error) the delay is \<open>min (1000 * 2 ^ a + j) 10000\<close> milliseconds for a jitter \<open>j\<close> with
  \<open>0 \<le> j < 1000\<close>, \<open>Math.random()\<close> returning a number from 0 up to but not including 1.
\<close>

theorem calculateRetryDelay_formula:
  "(0 \<le> rnd \<and> rnd < 1 \<and> (\<forall>r. ra = Some (Num r) \<longrightarrow> r = 0) \<longrightarrow>
      (\<exists>j. 0 \<le> j \<and> j < 1000 \<and> calculateRetryDelay a ra rnd = min (1000 * 2 ^ a + j) 10000))
   \<and> (r \<noteq> 0 \<longrightarrow> calculateRetryDelay a (Some (Num r)) rnd = r * 1000)
   \<and> (int a < maxRetries client \<and> try_block (outcomes a) url meth = (Inl e, evs)
        \<and> \<not> instanceof_YotoAuthenticationError e \<and> \<not> instanceof_YotoConnectionError e \<longrightarrow>
      snd (request_loop client outcomes rnd' url meth a le) =
        evs @ Sleep (calculateRetryDelay a (retryAfter e) (rnd' a))
          # snd (request_loop client outcomes rnd' url meth (Suc a) (Some e)))"
proof (intro conjI impI)
  assume h: "0 \<le> rnd \<and> rnd < 1 \<and> (\<forall>r. ra = Some (Num r) \<longrightarrow> r = 0)"
  then have "calculateRetryDelay a ra rnd = min (1000 * 2 ^ a + rnd * 1000) 10000"
    by (auto simp: calculateRetryDelay_def split: option.splits js_number.splits)
  moreover have "0 \<le> rnd * 1000 \<and> rnd * 1000 < 1000" using h by simp
  ultimately
  show "\<exists>j. 0 \<le> j \<and> j < 1000 \<and> calculateRetryDelay a ra rnd = min (1000 * 2 ^ a + j) 10000"
    by blast
next
  assume "r \<noteq> 0"
  then show "calculateRetryDelay a (Some (Num r)) rnd = r * 1000"
    by (simp add: calculateRetryDelay_def)
next
  assume "int a < maxRetries client \<and> try_block (outcomes a) url meth = (Inl e, evs)
        \<and> \<not> instanceof_YotoAuthenticationError e \<and> \<not> instanceof_YotoConnectionError e"
  then show "snd (request_loop client outcomes rnd' url meth a le) =
        evs @ Sleep (calculateRetryDelay a (retryAfter e) (rnd' a))
          # snd (request_loop client outcomes rnd' url meth (Suc a) (Some e))"
    by (simp add: loop_retries)
qed

theorem calculateRetryDelay_formula_witness:
  "(\<exists>j. 0 \<le> j \<and> j < 1000
        \<and> calculateRetryDelay 0 (Some NaN) (1 / 2) = min (1000 * 2 ^ 0 + j) 10000)
   \<and> calculateRetryDelay 0 (Some (Num 7)) (1 / 2) = 7 * 1000
   \<and> snd (request_loop \<lparr>baseUrl = [], timeout = 0, maxRetries = 1\<rparr>
           (\<lambda>k. FetchThrows ''TypeError'') (\<lambda>k. 1 / 4) ''u'' ''GET'' 0 None)
      = [GetAccessToken, Fetch, Sleep 1250, GetAccessToken, Fetch]"
proof -
  have tb: "try_block ((\<lambda>k. FetchThrows ''TypeError'') (0::nat)) ''u'' ''GET''
      = (Inl (OtherError ''TypeError''), [GetAccessToken, Fetch])"
    by (simp add: try_block_def)
  have l1: "request_loop \<lparr>baseUrl = [], timeout = 0, maxRetries = 1\<rparr>
           (\<lambda>k. FetchThrows ''TypeError'') (\<lambda>k. 1 / 4) ''u'' ''GET'' (Suc 0)
           (Some (OtherError ''TypeError''))
      = (Inl (OtherError ''TypeError''), [GetAccessToken, Fetch])"
    by (rule loop_last) (simp_all add: try_block_def)
  show ?thesis
    using calculateRetryDelay_formula [where rnd = "1 / 2" and ra = "Some NaN" and a = 0
        and r = 7 and client = "\<lparr>baseUrl = [], timeout = 0, maxRetries = 1\<rparr>"
        and outcomes = "\<lambda>k. FetchThrows ''TypeError''" and url = "''u''" and meth = "''GET''"
        and e = "OtherError ''TypeError''" and evs = "[GetAccessToken, Fetch]"
        and rnd' = "\<lambda>k. 1 / 4" and le = None]
      tb l1
    by (simp add: calculateRetryDelay_def)
qed

text \<open>
  Claim C7 as stated fails for a \<open>Retry-After\<close> value of 0 seconds: the header
  \<open>Retry-After: 0\<close> on a 429 response gives the error \<open>retryAfter = 0\<close>, and the delay
  computed for it at attempt 0 with \<open>Math.random() = 1/2\<close> is 1500 milliseconds, not
  \<open>0 * 1000\<close>.
\<close>

theorem retry_after_zero_counterexample:
  "retryAfter (handleErrorResponse
       \<lparr>status = 429, statusText = ''Too Many Requests'', header_X_Request_Id = None,
        header_Retry_After = Some ''0'', json_body = None\<rparr>
       ''https://api.yotoplay.com/content'' ''GET'')
     = Some (Num 0)
   \<and> calculateRetryDelay 0 (Some (Num 0)) (1 / 2) = 1500
   \<and> calculateRetryDelay 0 (Some (Num 0)) (1 / 2) \<noteq> 0 * 1000"
  by (simp add: handleErrorResponse_def calculateRetryDelay_def parseInt_def trim_start.simps
      ws_len_def is_digit_def dec_value_def digit_val_def)

text \<open>
  Claim C8. Whatever the configuration, if the loop makes a first attempt (the effective
  \<open>maxRetries\<close> is not negative) and that attempt's response has status 401, then
  \<open>request\<close> makes exactly one network attempt, does not sleep, and throws a
  \<open>YotoAuthenticationError\<close> that carries the message of the response (the error body's
  message if truthy, else the status text, else "Unknown error"), the error body's code,
  the \<open>X-Request-Id\<close> header, the URL and the method.
\<close>

theorem request_401_single_attempt:
  assumes "0 \<le> maxRetries client" and "outcomes 0 = Responds response"
    and "status response = 401"
  shows "request client outcomes rnd url options_method =
           (Inl (YotoAuthenticationError
              (case opt_member (opt_member (json_body response) ''error'') ''message'' of
                 Some m \<Rightarrow> if truthy (Some m) then m
                           else if statusText response \<noteq> [] then JStr (statusText response)
                           else JStr ''Unknown error''
               | None \<Rightarrow> if statusText response \<noteq> [] then JStr (statusText response)
                         else JStr ''Unknown error'')
              (opt_member (opt_member (json_body response) ''error'') ''code'')
              (case header_X_Request_Id response of
                 None \<Rightarrow> None | Some v \<Rightarrow> if v = [] then None else Some v)
              (Some url) (Some (or_default_string options_method ''GET''))),
            [GetAccessToken, Fetch])
         \<and> fetches (snd (request client outcomes rnd url options_method)) = 1
         \<and> sleeps (snd (request client outcomes rnd url options_method)) = []"
proof -
  let ?m = "or_default_string options_method ''GET''"
  have nok: "\<not> ok response" using assms(3) by (simp add: ok_def)
  have tb: "try_block (outcomes 0) url ?m
      = (Inl (handleErrorResponse response url ?m), [GetAccessToken, Fetch])"
    using try_block_not_ok [OF nok] assms(2) by simp
  have auth: "instanceof_YotoAuthenticationError (handleErrorResponse response url ?m)"
    by (simp add: handle_401 [OF assms(3)])
  have "request_loop client outcomes rnd url ?m 0 None
      = (Inl (handleErrorResponse response url ?m), [GetAccessToken, Fetch])"
    by (rule loop_propagates) (use assms(1) tb auth in simp_all)
  then show ?thesis
    by (simp add: request_def handle_401 [OF assms(3)] fetches_def sleeps_def)
qed

theorem request_401_single_attempt_witness:
  "request (new_HttpClient \<lparr>config_baseUrl = None, config_timeout = None,
              config_maxRetries = Some 5\<rparr>)
      (\<lambda>k. Responds \<lparr>status = 401, statusText = ''Unauthorized'',
              header_X_Request_Id = Some ''req_1'', header_Retry_After = None,
              json_body = Some (JObj [(''error'', JObj [(''message'', JStr ''Invalid token''),
                 (''code'', JStr ''bad_token'')])])\<rparr>)
      (\<lambda>k. 0) ''https://api.yotoplay.com/content/abc'' None
    = (Inl (YotoAuthenticationError (JStr ''Invalid token'') (Some (JStr ''bad_token''))
              (Some ''req_1'') (Some ''https://api.yotoplay.com/content/abc'') (Some ''GET'')),
       [GetAccessToken, Fetch])"
  using request_401_single_attempt
    [where client = "new_HttpClient \<lparr>config_baseUrl = None, config_timeout = None,
              config_maxRetries = Some 5\<rparr>"
       and outcomes = "\<lambda>k. Responds \<lparr>status = 401, statusText = ''Unauthorized'',
              header_X_Request_Id = Some ''req_1'', header_Retry_After = None,
              json_body = Some (JObj [(''error'', JObj [(''message'', JStr ''Invalid token''),
                 (''code'', JStr ''bad_token'')])])\<rparr>"
       and response = "\<lparr>status = 401, statusText = ''Unauthorized'',
              header_X_Request_Id = Some ''req_1'', header_Retry_After = None,
              json_body = Some (JObj [(''error'', JObj [(''message'', JStr ''Invalid token''),
                 (''code'', JStr ''bad_token'')])])\<rparr>"
       and rnd = "\<lambda>k. 0" and url = "''https://api.yotoplay.com/content/abc''"
       and options_method = None]
  by (simp add: new_HttpClient_def DEFAULT_MAX_RETRIES_def)

text \<open>
  Claim C9. The constructor of \<open>HttpClient\<close> takes the default for every falsy
  configured value, not only for an absent one: \<open>maxRetries = 0\<close> gives an effective
  \<open>maxRetries\<close> of 3, \<open>timeout = 0\<close> gives 30000 milliseconds and \<open>baseUrl = ""\<close> gives
  the default base URL; any other configured value is kept.
\<close>

theorem new_HttpClient_defaults_on_falsy:
  "maxRetries (new_HttpClient (config\<lparr>config_maxRetries := Some 0\<rparr>)) = 3
   \<and> maxRetries (new_HttpClient (config\<lparr>config_maxRetries := None\<rparr>)) = 3
   \<and> timeout (new_HttpClient (config\<lparr>config_timeout := Some 0\<rparr>)) = 30000
   \<and> timeout (new_HttpClient (config\<lparr>config_timeout := None\<rparr>)) = 30000
   \<and> baseUrl (new_HttpClient (config\<lparr>config_baseUrl := Some []\<rparr>)) = DEFAULT_BASE_URL
   \<and> baseUrl (new_HttpClient (config\<lparr>config_baseUrl := None\<rparr>)) = DEFAULT_BASE_URL
   \<and> DEFAULT_BASE_URL = ''https://api.yotoplay.com''
   \<and> (n \<noteq> 0 \<longrightarrow> maxRetries (new_HttpClient (config\<lparr>config_maxRetries := Some n\<rparr>)) = n)
   \<and> (t \<noteq> 0 \<longrightarrow> timeout (new_HttpClient (config\<lparr>config_timeout := Some t\<rparr>)) = t)
   \<and> (u \<noteq> [] \<longrightarrow> baseUrl (new_HttpClient (config\<lparr>config_baseUrl := Some u\<rparr>)) = u)"
  by (simp add: new_HttpClient_def DEFAULT_MAX_RETRIES_def DEFAULT_TIMEOUT_def
      DEFAULT_BASE_URL_def)

theorem new_HttpClient_defaults_on_falsy_witness:
  "maxRetries (new_HttpClient \<lparr>config_baseUrl = Some [], config_timeout = Some 0,
       config_maxRetries = Some 0\<rparr>) = 3
   \<and> maxRetries (new_HttpClient \<lparr>config_baseUrl = Some [], config_timeout = Some 0,
       config_maxRetries = Some 5\<rparr>) = 5
   \<and> timeout (new_HttpClient \<lparr>config_baseUrl = Some [], config_timeout = Some 1500,
       config_maxRetries = Some 0\<rparr>) = 1500
   \<and> baseUrl (new_HttpClient \<lparr>config_baseUrl = Some ''http://localhost'',
       config_timeout = Some 0, config_maxRetries = Some 0\<rparr>) = ''http://localhost''"
  using new_HttpClient_defaults_on_falsy
    [of "\<lparr>config_baseUrl = Some [], config_timeout = Some 0, config_maxRetries = Some 0\<rparr>"
        5 1500 "''http://localhost''"]
  by simp

section \<open>Strings: splitting, decimal digits, hexadecimal digits\<close>

lemma split_scan_no_sep:
  "c \<notin> set a \<Longrightarrow> split_scan c cur a = [cur @ a]"
  by (induction a arbitrary: cur) auto

lemma split_scan_sep:
  "c \<notin> set a \<Longrightarrow> split_scan c cur (a @ c # b) = (cur @ a) # split_scan c [] b"
  by (induction a arbitrary: cur) auto

lemma split_on_no_sep: "c \<notin> set a \<Longrightarrow> split_on c a = [a]"
  by (simp add: split_on_def split_scan_no_sep)

lemma split_on_sep: "c \<notin> set a \<Longrightarrow> split_on c (a @ c # b) = a # split_on c b"
  by (simp add: split_on_def split_scan_sep)

lemma digit_char_props:
  assumes "d < 10"
  shows "is_digit (digit_char d) \<and> digit_val (digit_char d) = d"
proof -
  from assms have "d = 0 \<or> d = 1 \<or> d = 2 \<or> d = 3 \<or> d = 4 \<or> d = 5 \<or> d = 6 \<or> d = 7
      \<or> d = 8 \<or> d = 9"
    by arith
  then show ?thesis
    by (elim disjE) (simp_all add: digit_char_def is_digit_def digit_val_def)
qed

lemma is_digit_not_punct:
  assumes "is_digit c"
  shows "c \<noteq> CHR '','' \<and> c \<noteq> CHR ''='' \<and> c \<noteq> CHR ''-'' \<and> c \<noteq> CHR ''+''"
  using assms by (auto simp: is_digit_def)

lemma digits_of_all_digits: "\<forall>c \<in> set (digits_of n). is_digit c"
proof (induction n rule: digits_of.induct)
  case (1 n)
  show ?case
  proof (cases "n < 10")
    case True
    then show ?thesis by (subst digits_of.simps) (simp add: digit_char_props)
  next
    case False
    with 1 show ?thesis by (subst digits_of.simps) (simp add: digit_char_props)
  qed
qed

lemma digits_of_not_empty: "digits_of n \<noteq> []"
  by (subst digits_of.simps) simp

lemma dec_value_snoc: "dec_value (ds @ [c]) = 10 * dec_value ds + digit_val c"
  by (simp add: dec_value_def)

lemma dec_value_digits_of: "dec_value (digits_of n) = n"
proof (induction n rule: digits_of.induct)
  case (1 n)
  show ?case
  proof (cases "n < 10")
    case True
    then show ?thesis
      by (subst digits_of.simps) (simp add: dec_value_def digit_char_props)
  next
    case False
    with 1 have "dec_value (digits_of (n div 10)) = n div 10" by simp
    with False show ?thesis
      by (subst digits_of.simps) (simp add: dec_value_snoc digit_char_props)
  qed
qed

lemma ws_len_digit_or_minus:
  assumes "is_digit c \<or> c = CHR ''-''"
  shows "ws_len (c # cs) = 0"
proof -
  have "45 \<le> (of_char c :: nat) \<and> (of_char c :: nat) \<le> 57"
    using assms by (auto simp: is_digit_def)
  then show ?thesis by (simp add: ws_len_def)
qed

lemma trim_start_digit_or_minus:
  assumes "is_digit c \<or> c = CHR ''-''"
  shows "trim_start (c # cs) = c # cs"
  by (subst trim_start.simps) (simp add: ws_len_digit_or_minus [OF assms])

lemma parseInt_digits:
  assumes "ds \<noteq> []" and "\<forall>c \<in> set ds. is_digit c"
  shows "parseInt ds = Num (of_int (int (dec_value ds)))"
proof -
  obtain c cs where ds: "ds = c # cs" using assms(1) by (cases ds) auto
  with assms(2) have c: "is_digit c" by simp
  have t: "trim_start ds = ds" using trim_start_digit_or_minus c ds by simp
  have tw: "takeWhile is_digit ds = ds" using assms(2) by (simp add: takeWhile_eq_all_conv)
  show ?thesis
    using is_digit_not_punct [OF c] assms(1)
    by (simp add: parseInt_def t Let_def ds [symmetric] tw) (simp add: ds)
qed

lemma parseInt_minus_digits:
  assumes "ds \<noteq> []" and "\<forall>c \<in> set ds. is_digit c"
  shows "parseInt (CHR ''-'' # ds) = Num (of_int (- int (dec_value ds)))"
proof -
  have t: "trim_start (CHR ''-'' # ds) = CHR ''-'' # ds"
    using trim_start_digit_or_minus by simp
  have tw: "takeWhile is_digit ds = ds" using assms(2) by (simp add: takeWhile_eq_all_conv)
  show ?thesis using assms(1) by (simp add: parseInt_def t Let_def tw)
qed

lemma parseInt_String_of_int: "parseInt (String_of_int n) = Num (of_int n)"
proof (cases "n < 0")
  case True
  then show ?thesis
    by (simp add: String_of_int_def parseInt_minus_digits digits_of_not_empty
        digits_of_all_digits dec_value_digits_of)
next
  case False
  then show ?thesis
    by (simp add: String_of_int_def parseInt_digits digits_of_not_empty
        digits_of_all_digits dec_value_digits_of)
qed

lemma String_of_int_chars:
  "String_of_int n \<noteq> [] \<and> CHR '','' \<notin> set (String_of_int n) \<and> CHR ''='' \<notin> set (String_of_int n)"
  using digits_of_all_digits is_digit_not_punct
  by (auto simp: String_of_int_def digits_of_not_empty)

lemma hex_char_not_punct:
  assumes "d < 16"
  shows "hex_char d \<noteq> CHR '','' \<and> hex_char d \<noteq> CHR ''=''"
proof -
  from assms have "d = 0 \<or> d = 1 \<or> d = 2 \<or> d = 3 \<or> d = 4 \<or> d = 5 \<or> d = 6 \<or> d = 7
      \<or> d = 8 \<or> d = 9 \<or> d = 10 \<or> d = 11 \<or> d = 12 \<or> d = 13 \<or> d = 14 \<or> d = 15"
    by arith
  then show ?thesis
    by (elim disjE) (simp_all add: hex_char_def)
qed

lemma hex_digits_chars:
  "length (hex_digits k n) = k
   \<and> CHR '','' \<notin> set (hex_digits k n) \<and> CHR ''='' \<notin> set (hex_digits k n)"
proof (induction k arbitrary: n)
  case 0
  show ?case by simp
next
  case (Suc k)
  have "hex_char (n mod 16) \<noteq> CHR '','' \<and> hex_char (n mod 16) \<noteq> CHR ''=''"
    by (rule hex_char_not_punct) simp
  with Suc show ?case by (simp add: eq_commute [of "CHR '',''"] eq_commute [of "CHR ''=''"])
qed

lemma hex_digest_chars:
  "hex_digest n \<noteq> [] \<and> CHR '','' \<notin> set (hex_digest n) \<and> CHR ''='' \<notin> set (hex_digest n)"
proof -
  have "length (hex_digest n) = 64" by (simp add: hex_digest_def hex_digits_chars)
  then have "hex_digest n \<noteq> []" by auto
  then show ?thesis by (simp add: hex_digest_def hex_digits_chars)
qed

lemma hex_digits_numeral:
  "hex_digits (numeral k) n = hex_digits (pred_numeral k) (n div 16) @ [hex_char (n mod 16)]"
  unfolding numeral_eq_Suc [of k] by simp

section \<open>Parsing the signature header\<close>

lemma parse_header_t_v1:
  assumes "CHR '','' \<notin> set ts" "CHR ''='' \<notin> set ts"
    and "CHR '','' \<notin> set sg" "CHR ''='' \<notin> set sg"
  shows "parts_loop (split_on (CHR '','') (''t='' @ ts @ '',v1='' @ sg)) (None, None)
           = (Some ts, Some sg)"
proof -
  have "''t='' @ ts @ '',v1='' @ sg = (''t='' @ ts) @ CHR '','' # (''v1='' @ sg)" by simp
  moreover have "split_on (CHR '','') ((''t='' @ ts) @ CHR '','' # (''v1='' @ sg))
      = (''t='' @ ts) # split_on (CHR '','') (''v1='' @ sg)"
    by (rule split_on_sep) (use assms(1) in simp)
  moreover have "split_on (CHR '','') (''v1='' @ sg) = [''v1='' @ sg]"
    by (rule split_on_no_sep) (use assms(3) in simp)
  ultimately
  have s: "split_on (CHR '','') (''t='' @ ts @ '',v1='' @ sg) = [''t='' @ ts, ''v1='' @ sg]"
    by (simp only:)
  have "''t='' @ ts = ''t'' @ CHR ''='' # ts" by simp
  then have p1: "split_on (CHR ''='') (''t='' @ ts) = [''t'', ts]"
    using split_on_sep [of "CHR ''=''" "''t''" ts] split_on_no_sep [OF assms(2)] by simp
  have "''v1='' @ sg = ''v1'' @ CHR ''='' # sg" by simp
  then have p2: "split_on (CHR ''='') (''v1='' @ sg) = [''v1'', sg]"
    using split_on_sep [of "CHR ''=''" "''v1''" sg] split_on_no_sep [OF assms(4)] by simp
  show ?thesis
    by (simp only: s parts_loop.simps Let_def p1 p2) simp
qed

lemma secureCompare_refl: "secureCompare a a = Inr True"
  by (simp add: secureCompare_def)

lemma secureCompare_never_timestamp: "secureCompare a b \<noteq> Inl TimestampOutsideTolerance"
  by (simp add: secureCompare_def)

section \<open>Claims about webhook verification\<close>

text \<open>
  A header made by \<open>generateTestHeaderString\<close> at one reading of the clock verifies at
  any later reading that is at most the default tolerance of 300 seconds ahead.
\<close>

lemma verify_generated_header:
  assumes "JSON_parse P payload = Some event"
    and "now' div 1000 - now div 1000 \<le> 300"
  shows "constructEvent P now' payload
           (generateTestHeaderString P now (PayloadString payload) secret None) secret None
         = Inr event"
proof -
  let ?ts = "String_of_int (now div 1000)"
  let ?sg = "computeSignature P ?ts payload secret"
  have h: "generateTestHeaderString P now (PayloadString payload) secret None
      = ''t='' @ ?ts @ '',v1='' @ ?sg"
    by (simp add: generateTestHeaderString_def Let_def)
  have sg: "?sg \<noteq> [] \<and> CHR '','' \<notin> set ?sg \<and> CHR ''='' \<notin> set ?sg"
    by (simp add: computeSignature_def hex_digest_chars)
  have parts: "parts_loop (split_on (CHR '','') (''t='' @ ?ts @ '',v1='' @ ?sg)) (None, None)
      = (Some ?ts, Some ?sg)"
    by (rule parse_header_t_v1) (simp_all add: String_of_int_chars sg)
  have fresh: "\<not> js_gt (js_sub (Num (of_int (now' div 1000))) (parseInt ?ts))
                  (Num TIMESTAMP_TOLERANCE)"
  proof -
    have "real_of_int (now' div 1000) - real_of_int (now div 1000)
        = real_of_int (now' div 1000 - now div 1000)" by simp
    also have "\<dots> \<le> 300" using assms(2) by linarith
    finally show ?thesis
      by (simp add: parseInt_String_of_int TIMESTAMP_TOLERANCE_def)
  qed
  have "constructEvent P now' payload (''t='' @ ?ts @ '',v1='' @ ?sg) secret None = Inr event"
    unfolding constructEvent_def Let_def parts
    using fresh by (simp add: String_of_int_chars sg secureCompare_refl assms(1))
  then show ?thesis by (simp only: h)
qed

text \<open>
  Claim C4. For every payload string that \<open>JSON.parse\<close> accepts, every secret and every
  current time, \<open>constructEvent(payload, generateTestHeaderString({payload, secret}),
  secret)\<close> raises no error and returns the event obtained by parsing the payload; the
  same holds when the verification reads the clock up to 300 seconds after the header
  was made, and when the header is made from an object whose serialisation parses back
  to it.
\<close>

theorem constructEvent_generateTestHeaderString_roundtrip:
  "(JSON_parse P payload = Some event \<longrightarrow>
      constructEvent P now payload
        (generateTestHeaderString P now (PayloadString payload) secret None) secret None
      = Inr event)
   \<and> (JSON_parse P payload = Some event \<and> now' div 1000 - now div 1000 \<le> 300 \<longrightarrow>
      constructEvent P now' payload
        (generateTestHeaderString P now (PayloadString payload) secret None) secret None
      = Inr event)
   \<and> (JSON_parse P (JSON_stringify P v) = Some v \<longrightarrow>
      constructEvent P now (JSON_stringify P v)
        (generateTestHeaderString P now (PayloadObject v) secret None) secret None
      = Inr v)"
proof (intro conjI impI)
  assume "JSON_parse P payload = Some event"
  then show "constructEvent P now payload
        (generateTestHeaderString P now (PayloadString payload) secret None) secret None
      = Inr event"
    by (rule verify_generated_header) simp
next
  assume "JSON_parse P payload = Some event \<and> now' div 1000 - now div 1000 \<le> 300"
  then show "constructEvent P now' payload
        (generateTestHeaderString P now (PayloadString payload) secret None) secret None
      = Inr event"
    by (simp add: verify_generated_header)
next
  assume p: "JSON_parse P (JSON_stringify P v) = Some v"
  have "generateTestHeaderString P now (PayloadObject v) secret None
      = generateTestHeaderString P now (PayloadString (JSON_stringify P v)) secret None"
    by (simp add: generateTestHeaderString_def)
  then show "constructEvent P now (JSON_stringify P v)
        (generateTestHeaderString P now (PayloadObject v) secret None) secret None
      = Inr v"
    using verify_generated_header [OF p, of now now secret] by simp
qed

text \<open>
  The theorem at work on the event of the repository's test, with the real digest: the
  header made at 1700000000123 ms is
  \<open>t=1700000000,v1=6933c557...\<close>, and it verifies at the same time and 300 seconds
  later.
\<close>

theorem constructEvent_generateTestHeaderString_roundtrip_witness:
  "generateTestHeaderString sample_platform 1700000000123 (PayloadString sample_payload)
       ''test_secret'' None
     = ''t=1700000000,v1=6933c55725b6d16dd7bb9b8ad4e011d2443a8b84a76bfedf91e2f9e146f17b34''
   \<and> constructEvent sample_platform 1700000000123 sample_payload
        (generateTestHeaderString sample_platform 1700000000123 (PayloadString sample_payload)
           ''test_secret'' None) ''test_secret'' None
      = Inr sample_event
   \<and> constructEvent sample_platform 1700000300999 sample_payload
        (generateTestHeaderString sample_platform 1700000000123 (PayloadString sample_payload)
           ''test_secret'' None) ''test_secret'' None
      = Inr sample_event
   \<and> constructEvent sample_platform 1700000000123 sample_payload
        (generateTestHeaderString sample_platform 1700000000123 (PayloadObject sample_event)
           ''test_secret'' None) ''test_secret'' None
      = Inr sample_event"
proof -
  have p: "JSON_parse sample_platform sample_payload = Some sample_event"
    by (simp add: sample_platform_def)
  have q: "JSON_stringify sample_platform sample_event = sample_payload"
    by (simp add: sample_platform_def)
  have ts: "String_of_int (1700000000123 div 1000) = ''1700000000''"
    by (simp add: String_of_int_def digits_of.simps digit_char_def)
  have hm: "hmac_sha256 sample_platform ''test_secret'' (''1700000000'' @ ''.'' @ sample_payload)
      = 0x6933c55725b6d16dd7bb9b8ad4e011d2443a8b84a76bfedf91e2f9e146f17b34"
    by (simp add: sample_platform_def)
  have hx: "hex_digest 0x6933c55725b6d16dd7bb9b8ad4e011d2443a8b84a76bfedf91e2f9e146f17b34
      = ''6933c55725b6d16dd7bb9b8ad4e011d2443a8b84a76bfedf91e2f9e146f17b34''"
    by (simp add: hex_digest_def hex_digits_numeral hex_char_def)
  have g: "generateTestHeaderString sample_platform 1700000000123 (PayloadString sample_payload)
       ''test_secret'' None
     = ''t=1700000000,v1=6933c55725b6d16dd7bb9b8ad4e011d2443a8b84a76bfedf91e2f9e146f17b34''"
    by (simp only: generateTestHeaderString_def Let_def payload_arg.case or_default_int.simps
        computeSignature_def ts hm hx) simp
  have r1: "constructEvent sample_platform 1700000000123 sample_payload
        (generateTestHeaderString sample_platform 1700000000123 (PayloadString sample_payload)
           ''test_secret'' None) ''test_secret'' None
      = Inr sample_event"
    by (rule constructEvent_generateTestHeaderString_roundtrip
          [THEN conjunct1, rule_format]) (rule p)
  have r2: "constructEvent sample_platform 1700000300999 sample_payload
        (generateTestHeaderString sample_platform 1700000000123 (PayloadString sample_payload)
           ''test_secret'' None) ''test_secret'' None
      = Inr sample_event"
    by (rule constructEvent_generateTestHeaderString_roundtrip
          [THEN conjunct2, THEN conjunct1, rule_format]) (simp add: p)
  have r3: "constructEvent sample_platform 1700000000123 (JSON_stringify sample_platform sample_event)
        (generateTestHeaderString sample_platform 1700000000123 (PayloadObject sample_event)
           ''test_secret'' None) ''test_secret'' None
      = Inr sample_event"
    by (rule constructEvent_generateTestHeaderString_roundtrip
          [THEN conjunct2, THEN conjunct2, rule_format]) (simp only: q p)
  from g r1 r2 r3 show ?thesis by (simp only: q simp_thms)
qed

text \<open>
  Claim C5. Let the header hold a non-empty \<open>t\<close> value that parses to the number
  \<open>t\<close> and a non-empty \<open>v1\<close> value. Then \<open>constructEvent\<close> rejects with the
  timestamp-tolerance failure exactly when \<open>now - t > tolerance\<close>, \<open>now\<close> being the
  current time in whole seconds and the tolerance 300 seconds unless another one is
  given. So a timestamp more than the tolerance in the past is rejected, a timestamp
  exactly at the boundary is not, and with a tolerance that is not negative a timestamp
  in the future never is: there is no upper bound.
\<close>

theorem constructEvent_timestamp_tolerance:
  assumes "signature \<noteq> []"
    and "parts_loop (split_on (CHR '','') signature) (None, None) = (Some ts, Some sg)"
    and "ts \<noteq> []" and "sg \<noteq> []"
    and "parseInt ts = Num t"
  shows "(constructEvent P now payload signature secret (Some (Num tol))
            = Inl TimestampOutsideTolerance
          \<longleftrightarrow> real_of_int (now div 1000) - t > tol)
       \<and> (constructEvent P now payload signature secret None = Inl TimestampOutsideTolerance
          \<longleftrightarrow> real_of_int (now div 1000) - t > 300)
       \<and> (real_of_int (now div 1000) - t = tol \<longrightarrow>
            constructEvent P now payload signature secret (Some (Num tol))
              \<noteq> Inl TimestampOutsideTolerance)
       \<and> (0 \<le> tol \<and> real_of_int (now div 1000) \<le> t \<longrightarrow>
            constructEvent P now payload signature secret (Some (Num tol))
              \<noteq> Inl TimestampOutsideTolerance)"
proof -
  have main: "constructEvent P now payload signature secret opt = Inl TimestampOutsideTolerance
      \<longleftrightarrow> js_gt (Num (real_of_int (now div 1000) - t))
            (case opt of None \<Rightarrow> Num TIMESTAMP_TOLERANCE | Some x \<Rightarrow> x)" for opt
    using assms secureCompare_never_timestamp [of "computeSignature P ts payload secret" sg]
    by (cases "secureCompare (computeSignature P ts payload secret) sg")
      (auto simp: constructEvent_def Let_def split: option.splits bool.splits)
  show ?thesis
    using main [of "Some (Num tol)"] main [of None]
    by (auto simp: TIMESTAMP_TOLERANCE_def)
qed

text \<open>
  The theorem at work on validly signed headers, verified at 1700000000999 ms with the
  default tolerance: a timestamp 301 seconds old is rejected, one exactly 300 seconds
  old is accepted and the event returned.
\<close>

theorem constructEvent_timestamp_tolerance_witness:
  "constructEvent sample_platform 1700000000999 sample_payload
      ''t=1699999699,v1=df710558d264e79616eaf4aa3a4c40d4d0f14671fd6013627c8663a7da2fbd13''
      ''test_secret'' None
     = Inl TimestampOutsideTolerance
   \<and> constructEvent sample_platform 1700000000999 sample_payload
      ''t=1699999700,v1=696c9e785a77a0419659ee7a7735d92b0fd48213a62e48aa53306fde3bf327be''
      ''test_secret'' None
     \<noteq> Inl TimestampOutsideTolerance
   \<and> constructEvent sample_platform 1700000000999 sample_payload
      ''t=1699999700,v1=696c9e785a77a0419659ee7a7735d92b0fd48213a62e48aa53306fde3bf327be''
      ''test_secret'' None
     = Inr sample_event"
proof -
  have p1: "parts_loop (split_on (CHR '','')
      ''t=1699999699,v1=df710558d264e79616eaf4aa3a4c40d4d0f14671fd6013627c8663a7da2fbd13'')
      (None, None)
    = (Some ''1699999699'',
       Some ''df710558d264e79616eaf4aa3a4c40d4d0f14671fd6013627c8663a7da2fbd13'')"
    by (simp add: split_on_def)
  have p2: "parts_loop (split_on (CHR '','')
      ''t=1699999700,v1=696c9e785a77a0419659ee7a7735d92b0fd48213a62e48aa53306fde3bf327be'')
      (None, None)
    = (Some ''1699999700'',
       Some ''696c9e785a77a0419659ee7a7735d92b0fd48213a62e48aa53306fde3bf327be'')"
    by (simp add: split_on_def)
  have i1: "parseInt ''1699999699'' = Num 1699999699"
    by (simp add: parseInt_def trim_start.simps ws_len_def is_digit_def dec_value_def
        digit_val_def)
  have i2: "parseInt ''1699999700'' = Num 1699999700"
    by (simp add: parseInt_def trim_start.simps ws_len_def is_digit_def dec_value_def
        digit_val_def)
  have hm: "hmac_sha256 sample_platform ''test_secret'' (''1699999700'' @ ''.'' @ sample_payload)
     = 0x696c9e785a77a0419659ee7a7735d92b0fd48213a62e48aa53306fde3bf327be"
    by (simp add: sample_platform_def)
  have s2: "computeSignature sample_platform ''1699999700'' sample_payload ''test_secret''
      = ''696c9e785a77a0419659ee7a7735d92b0fd48213a62e48aa53306fde3bf327be''"
    by (simp only: computeSignature_def Let_def hm)
       (simp add: hex_digest_def hex_digits_numeral hex_char_def)
  have j: "JSON_parse sample_platform sample_payload = Some sample_event"
    by (simp add: sample_platform_def)
  have r1: "constructEvent sample_platform 1700000000999 sample_payload
      ''t=1699999699,v1=df710558d264e79616eaf4aa3a4c40d4d0f14671fd6013627c8663a7da2fbd13''
      ''test_secret'' None
     = Inl TimestampOutsideTolerance"
    using constructEvent_timestamp_tolerance [OF _ p1 _ _ i1, of sample_platform 1700000000999
      sample_payload "''test_secret''" 300]
    by simp
  have r2: "constructEvent sample_platform 1700000000999 sample_payload
      ''t=1699999700,v1=696c9e785a77a0419659ee7a7735d92b0fd48213a62e48aa53306fde3bf327be''
      ''test_secret'' None
     \<noteq> Inl TimestampOutsideTolerance"
    using constructEvent_timestamp_tolerance [OF _ p2 _ _ i2, of sample_platform 1700000000999
      sample_payload "''test_secret''" 300]
    by simp
  have r3: "constructEvent sample_platform 1700000000999 sample_payload
      ''t=1699999700,v1=696c9e785a77a0419659ee7a7735d92b0fd48213a62e48aa53306fde3bf327be''
      ''test_secret'' None
     = Inr sample_event"
    unfolding constructEvent_def Let_def p2
    by (simp add: i2 s2 j secureCompare_refl TIMESTAMP_TOLERANCE_def)
  from r1 r2 r3 show ?thesis by (simp only: simp_thms)
qed

text \<open>
  Claim C10. If the \<open>t\<close> value of the header is present (not empty) but
  \<open>Number.parseInt\<close> gives \<open>NaN\<close> for it, and the \<open>v1\<close> value is present, then
  \<open>constructEvent\<close> raises neither a format error nor a timestamp-tolerance error,
  whatever the tolerance and the time: the result is decided by the comparison of the
  \<open>v1\<close> value with the signature computed over the original timestamp string, and then
  by the parse of the payload.
\<close>

theorem constructEvent_unparseable_timestamp:
  assumes "signature \<noteq> []"
    and "parts_loop (split_on (CHR '','') signature) (None, None) = (Some ts, Some sg)"
    and "ts \<noteq> []" and "sg \<noteq> []"
    and "parseInt ts = NaN"
  shows "constructEvent P now payload signature secret options_tolerance =
           (case secureCompare (computeSignature P ts payload secret) sg of
              Inl e \<Rightarrow> Inl e
            | Inr False \<Rightarrow> Inl SignatureVerificationFailed
            | Inr True \<Rightarrow>
                (case JSON_parse P payload of
                   None \<Rightarrow> Inl InvalidJSONPayload
                 | Some event \<Rightarrow> Inr event))
         \<and> constructEvent P now payload signature secret options_tolerance
             \<noteq> Inl NoSignatureProvided
         \<and> constructEvent P now payload signature secret options_tolerance
             \<noteq> Inl InvalidSignatureFormat
         \<and> constructEvent P now payload signature secret options_tolerance
             \<noteq> Inl TimestampOutsideTolerance"
proof -
  have eq: "constructEvent P now payload signature secret options_tolerance =
           (case secureCompare (computeSignature P ts payload secret) sg of
              Inl e \<Rightarrow> Inl e
            | Inr False \<Rightarrow> Inl SignatureVerificationFailed
            | Inr True \<Rightarrow>
                (case JSON_parse P payload of
                   None \<Rightarrow> Inl InvalidJSONPayload
                 | Some event \<Rightarrow> Inr event))"
    using assms by (simp add: constructEvent_def Let_def)
  show ?thesis
    unfolding eq
    by (auto simp: secureCompare_def split: option.splits bool.splits if_splits)
qed

text \<open>
  The theorem at work: the header \<open>t=abc,v1=...\<close>, signed over \<open>abc.<payload>\<close>,
  verifies at any time and the event is returned.
\<close>

theorem constructEvent_unparseable_timestamp_witness:
  "constructEvent sample_platform 1700000000999 sample_payload
      ''t=abc,v1=14116e26eb8fdb99d012c1d6ccb6e51300cbba3f2c26f3e29ac79fd881a7fc4b''
      ''test_secret'' None
     = Inr sample_event"
proof -
  have p: "parts_loop (split_on (CHR '','')
      ''t=abc,v1=14116e26eb8fdb99d012c1d6ccb6e51300cbba3f2c26f3e29ac79fd881a7fc4b'')
      (None, None)
    = (Some ''abc'', Some ''14116e26eb8fdb99d012c1d6ccb6e51300cbba3f2c26f3e29ac79fd881a7fc4b'')"
    by (simp add: split_on_def)
  have i: "parseInt ''abc'' = NaN"
    by (simp add: parseInt_def trim_start.simps ws_len_def is_digit_def)
  have hm: "hmac_sha256 sample_platform ''test_secret'' (''abc'' @ ''.'' @ sample_payload)
     = 0x14116e26eb8fdb99d012c1d6ccb6e51300cbba3f2c26f3e29ac79fd881a7fc4b"
    by (simp add: sample_platform_def)
  have s: "computeSignature sample_platform ''abc'' sample_payload ''test_secret''
      = ''14116e26eb8fdb99d012c1d6ccb6e51300cbba3f2c26f3e29ac79fd881a7fc4b''"
    by (simp only: computeSignature_def Let_def hm)
       (simp add: hex_digest_def hex_digits_numeral hex_char_def)
  have j: "JSON_parse sample_platform sample_payload = Some sample_event"
    by (simp add: sample_platform_def)
  have "constructEvent sample_platform 1700000000999 sample_payload
      ''t=abc,v1=14116e26eb8fdb99d012c1d6ccb6e51300cbba3f2c26f3e29ac79fd881a7fc4b''
      ''test_secret'' None
     = (case secureCompare
               (computeSignature sample_platform ''abc'' sample_payload ''test_secret'')
               ''14116e26eb8fdb99d012c1d6ccb6e51300cbba3f2c26f3e29ac79fd881a7fc4b'' of
          Inl e \<Rightarrow> Inl e
        | Inr False \<Rightarrow> Inl SignatureVerificationFailed
        | Inr True \<Rightarrow>
            (case JSON_parse sample_platform sample_payload of
               None \<Rightarrow> Inl InvalidJSONPayload
             | Some event \<Rightarrow> Inr event))"
    by (rule constructEvent_unparseable_timestamp [THEN conjunct1, OF _ p _ _ i]) simp_all
  then show ?thesis
    by (simp only: s j secureCompare_refl) simp
qed

section \<open>Claims about tokens and auth providers\<close>

lemma decodeJWT_wrong_shape:
  assumes "length (split_on (CHR ''.'') token) \<noteq> 3 \<or> split_on (CHR ''.'') token ! 1 = []"
  shows "\<exists>err. decodeJWT P token = Inl err"
  using assms by (auto simp: decodeJWT_def Let_def)

lemma isTokenExpired_numeric_exp:
  assumes "decodeJWT P token = Inr (JObj claims)" and "map_of claims ''exp'' = Some (JNum e)"
  shows "isTokenExpired P now token \<longleftrightarrow> e = 0 \<or> e * 1000 < real_of_int now + 30000"
  using assms by (simp add: isTokenExpired_def)

text \<open>
  An \<open>exp\<close> that is a string, an array or an object is truthy unless it is the empty
  string, and the platform converts it for the multiplication. When the conversion
  gives \<open>NaN\<close> the comparison is false and the token counts as not expired, at every
  time; when it throws, the token counts as expired.
\<close>

lemma isTokenExpired_exp_not_a_number:
  assumes "decodeJWT P token = Inr (JObj claims)" and "map_of claims ''exp'' = Some v"
    and "truthy (Some v)" and "to_number P (Some v) = Some NaN"
  shows "\<not> isTokenExpired P now token"
  using assms by (simp add: isTokenExpired_def)

text \<open>
  Claim C6, as amended. For every access token string and every time from the epoch on:
  if the token decodes to claims whose \<open>exp\<close> is a number, \<open>isTokenExpired\<close> returns
  true exactly when \<open>exp * 1000 < now + 30000\<close>. So it returns false when \<open>exp\<close> is
  30 seconds or more in the future, the boundary of exactly 30 seconds included, and
  true when \<open>exp\<close> is less than 30 seconds ahead or in the past. If the claims have no
  \<open>exp\<close>, or are \<open>null\<close>, or the token cannot be decoded (it has not three parts, its
  second part is empty, or decoding fails), \<open>isTokenExpired\<close> returns true.
\<close>

theorem isTokenExpired_cases:
  "(decodeJWT P token = Inr (JObj claims) \<and> map_of claims ''exp'' = Some (JNum e) \<and> 0 \<le> now
      \<longrightarrow> (isTokenExpired P now token \<longleftrightarrow> e * 1000 < real_of_int now + 30000))
   \<and> (decodeJWT P token = Inr (JObj claims) \<and> map_of claims ''exp'' = Some (JNum e) \<and> 0 \<le> now
        \<and> e * 1000 > real_of_int now + 30000
      \<longrightarrow> \<not> isTokenExpired P now token)
   \<and> (decodeJWT P token = Inr (JObj claims) \<and> map_of claims ''exp'' = Some (JNum e) \<and> 0 \<le> now
        \<and> e * 1000 = real_of_int now + 30000
      \<longrightarrow> \<not> isTokenExpired P now token)
   \<and> (decodeJWT P token = Inr decoded \<and> member decoded ''exp'' = Inr None
      \<longrightarrow> isTokenExpired P now token)
   \<and> (decodeJWT P token = Inr JNull \<longrightarrow> isTokenExpired P now token)
   \<and> (decodeJWT P token = Inl err \<longrightarrow> isTokenExpired P now token)
   \<and> (length (split_on (CHR ''.'') token) \<noteq> 3 \<or> split_on (CHR ''.'') token ! 1 = []
      \<longrightarrow> isTokenExpired P now token)"
proof (intro conjI impI)
  assume h: "decodeJWT P token = Inr (JObj claims) \<and> map_of claims ''exp'' = Some (JNum e)
      \<and> 0 \<le> now"
  then have "isTokenExpired P now token \<longleftrightarrow> e = 0 \<or> e * 1000 < real_of_int now + 30000"
    by (simp add: isTokenExpired_numeric_exp)
  moreover have "e = 0 \<Longrightarrow> e * 1000 < real_of_int now + 30000" using h by simp
  ultimately show "isTokenExpired P now token \<longleftrightarrow> e * 1000 < real_of_int now + 30000"
    by blast
next
  assume h: "decodeJWT P token = Inr (JObj claims) \<and> map_of claims ''exp'' = Some (JNum e)
      \<and> 0 \<le> now \<and> e * 1000 > real_of_int now + 30000"
  then have "isTokenExpired P now token \<longleftrightarrow> e = 0 \<or> e * 1000 < real_of_int now + 30000"
    by (simp add: isTokenExpired_numeric_exp)
  moreover have "e \<noteq> 0" using h by auto
  ultimately show "\<not> isTokenExpired P now token" using h by simp
next
  assume h: "decodeJWT P token = Inr (JObj claims) \<and> map_of claims ''exp'' = Some (JNum e)
      \<and> 0 \<le> now \<and> e * 1000 = real_of_int now + 30000"
  then have "isTokenExpired P now token \<longleftrightarrow> e = 0 \<or> e * 1000 < real_of_int now + 30000"
    by (simp add: isTokenExpired_numeric_exp)
  moreover have "e \<noteq> 0" using h by auto
  ultimately show "\<not> isTokenExpired P now token" using h by simp
next
  assume "decodeJWT P token = Inr decoded \<and> member decoded ''exp'' = Inr None"
  then show "isTokenExpired P now token" by (simp add: isTokenExpired_def)
next
  assume "decodeJWT P token = Inr JNull"
  then show "isTokenExpired P now token" by (simp add: isTokenExpired_def)
next
  assume "decodeJWT P token = Inl err"
  then show "isTokenExpired P now token" by (simp add: isTokenExpired_def)
next
  assume "length (split_on (CHR ''.'') token) \<noteq> 3 \<or> split_on (CHR ''.'') token ! 1 = []"
  then obtain err where "decodeJWT P token = Inl err"
    using decodeJWT_wrong_shape by blast
  then show "isTokenExpired P now token" by (simp add: isTokenExpired_def)
qed

text \<open>
  The theorem at work at 1700000000000 ms: a token expiring in an hour is not expired,
  one expiring in 20 seconds is, and so are a token without \<open>exp\<close> and the malformed
  token of the repository's test; a token expiring in exactly 30 seconds is not
  expired.
\<close>

theorem isTokenExpired_cases_witness:
  "\<not> isTokenExpired sample_platform 1700000000000 token_valid
   \<and> isTokenExpired sample_platform 1700000000000 token_expiring
   \<and> isTokenExpired sample_platform 1700000000000 token_no_exp
   \<and> isTokenExpired sample_platform 1700000000000 ''invalid.token''
   \<and> \<not> isTokenExpired sample_platform 1700000000000 token_boundary"
proof -
  have d5: "decodeJWT sample_platform token_boundary = Inr (JObj [(''exp'', JNum 1700000030)])"
    by (simp add: split_on_def decodeJWT_def token_boundary_def sample_platform_def
        sample_payload_def)
  have r5: "\<not> isTokenExpired sample_platform 1700000000000 token_boundary"
    by (rule isTokenExpired_cases [THEN conjunct2, THEN conjunct2, THEN conjunct1, rule_format,
          where claims = "[(''exp'', JNum 1700000030)]" and e = 1700000030])
       (simp add: d5)
  have d1: "decodeJWT sample_platform token_valid = Inr (JObj [(''exp'', JNum 1700003600)])"
    by (simp add: split_on_def decodeJWT_def token_valid_def sample_platform_def sample_payload_def)
  have d2: "decodeJWT sample_platform token_expiring = Inr (JObj [(''exp'', JNum 1700000020)])"
    by (simp add: split_on_def decodeJWT_def token_expiring_def sample_platform_def sample_payload_def)
  have d3: "decodeJWT sample_platform token_no_exp = Inr (JObj [(''sub'', JStr ''user'')])"
    by (simp add: split_on_def decodeJWT_def token_no_exp_def sample_platform_def sample_payload_def)
  have s4: "length (split_on (CHR ''.'') ''invalid.token'') \<noteq> 3"
    by (simp add: split_on_def)
  have r1: "\<not> isTokenExpired sample_platform 1700000000000 token_valid"
    by (rule isTokenExpired_cases [THEN conjunct2, THEN conjunct1, rule_format,
          where claims = "[(''exp'', JNum 1700003600)]" and e = 1700003600])
       (simp add: d1)
  have r2: "isTokenExpired sample_platform 1700000000000 token_expiring"
    using isTokenExpired_cases [THEN conjunct1, rule_format,
          where P = sample_platform and token = token_expiring
            and claims = "[(''exp'', JNum 1700000020)]" and e = 1700000020
            and now = 1700000000000]
    by (simp add: d2)
  have r3: "isTokenExpired sample_platform 1700000000000 token_no_exp"
    by (rule isTokenExpired_cases [THEN conjunct2, THEN conjunct2, THEN conjunct2,
          THEN conjunct1, rule_format,
          where decoded = "JObj [(''sub'', JStr ''user'')]"])
       (simp add: d3)
  have r4: "isTokenExpired sample_platform 1700000000000 ''invalid.token''"
    by (rule isTokenExpired_cases [THEN conjunct2, THEN conjunct2, THEN conjunct2,
          THEN conjunct2, THEN conjunct2, THEN conjunct2, rule_format])
       (simp add: s4)
  from r1 r2 r3 r4 r5 show ?thesis by simp
qed

text \<open>
  Claim C6 as stated fails at two inputs. A token that decodes to the claims
  \<open>{"exp":"soon"}\<close> is neither without \<open>exp\<close> nor undecodable, and \<open>isTokenExpired\<close>
  returns false for it at every time: the check is not fail-safe-expired there. And at
  1700000000000 ms a token whose \<open>exp\<close> is 1700000030, within 30 seconds of now,
  counts as not expired.
\<close>

theorem isTokenExpired_not_fail_safe_counterexample:
  "decodeJWT sample_platform token_exp_text = Inr (JObj [(''exp'', JStr ''soon'')])
   \<and> (\<forall>now. \<not> isTokenExpired sample_platform now token_exp_text)
   \<and> decodeJWT sample_platform token_boundary = Inr (JObj [(''exp'', JNum 1700000030)])
   \<and> \<not> isTokenExpired sample_platform 1700000000000 token_boundary"
proof -
  have d5: "decodeJWT sample_platform token_boundary = Inr (JObj [(''exp'', JNum 1700000030)])"
    by (simp add: split_on_def decodeJWT_def token_boundary_def sample_platform_def
        sample_payload_def)
  have d6: "decodeJWT sample_platform token_exp_text = Inr (JObj [(''exp'', JStr ''soon'')])"
    by (simp add: split_on_def decodeJWT_def token_exp_text_def sample_platform_def
        sample_payload_def)
  have n: "to_number sample_platform (Some (JStr ''soon'')) = Some NaN"
    by (simp add: sample_platform_def)
  have r6: "\<not> isTokenExpired sample_platform now token_exp_text" for now
    by (rule isTokenExpired_exp_not_a_number [OF d6 _ _ n]) simp_all
  have r5: "\<not> isTokenExpired sample_platform 1700000000000 token_boundary"
    by (simp add: isTokenExpired_def d5)
  from d5 d6 r5 r6 show ?thesis by simp
qed

text \<open>
  Claim C2, as amended. \<open>RefreshableAuthProvider.getAccessToken\<close> returns the held
  access token without a refresh only when \<open>isTokenExpired\<close> is false for it. When the
  held token is expired it first performs one refresh with the held refresh token; it
  then stores the new tokens and returns the new access token, which is not checked
  again, or it rethrows the error of the refresh and keeps the slot as it was.
  \<open>StaticTokenProvider.getAccessToken\<close> returns its token as it is, expired or not, and
  never refreshes.
\<close>

theorem getAccessToken_refreshes_when_expired:
  "(isTokenExpired P now (access_token tokens)
      \<and> refreshAccessToken endpoint authBaseUrl clientId (refresh_token tokens) timeout_ms
          = Inr tokens'
    \<longrightarrow> getAccessToken P now endpoint (RefreshableAuthProvider authBaseUrl clientId timeout_ms tokens)
          = (Inr (access_token tokens'),
             RefreshableAuthProvider authBaseUrl clientId timeout_ms tokens',
             [refresh_token tokens]))
   \<and> (isTokenExpired P now (access_token tokens)
      \<and> refreshAccessToken endpoint authBaseUrl clientId (refresh_token tokens) timeout_ms
          = Inl e
    \<longrightarrow> getAccessToken P now endpoint (RefreshableAuthProvider authBaseUrl clientId timeout_ms tokens)
          = (Inl e, RefreshableAuthProvider authBaseUrl clientId timeout_ms tokens,
             [refresh_token tokens]))
   \<and> (\<not> isTokenExpired P now (access_token tokens)
    \<longrightarrow> getAccessToken P now endpoint (RefreshableAuthProvider authBaseUrl clientId timeout_ms tokens)
          = (Inr (access_token tokens),
             RefreshableAuthProvider authBaseUrl clientId timeout_ms tokens, []))
   \<and> getAccessToken P now endpoint (StaticTokenProvider accessToken)
        = (Inr accessToken, StaticTokenProvider accessToken, [])"
  by simp

text \<open>
  The theorem at work at 1700000000000 ms: a provider holding a token that expires in
  20 seconds refreshes, stores the tokens of the response and returns the new access
  token.
\<close>

theorem getAccessToken_refreshes_when_expired_witness:
  "getAccessToken sample_platform 1700000000000
      (\<lambda>url client_id token. TokenFetchResponds True []
          (Some \<lparr>access_token = token_valid, refresh_token = ''refresh_2'',
                 expires_in = Some 3600, token_type = Some ''Bearer''\<rparr>))
      (RefreshableAuthProvider ''https://login.yotoplay.com'' ''client'' 30000
          \<lparr>access_token = token_expiring, refresh_token = ''refresh_1'',
            expires_in = Some 3600, token_type = Some ''Bearer''\<rparr>)
    = (Inr token_valid,
       RefreshableAuthProvider ''https://login.yotoplay.com'' ''client'' 30000
          \<lparr>access_token = token_valid, refresh_token = ''refresh_2'',
            expires_in = Some 3600, token_type = Some ''Bearer''\<rparr>,
       [''refresh_1''])"
proof -
  have d2: "decodeJWT sample_platform token_expiring = Inr (JObj [(''exp'', JNum 1700000020)])"
    by (simp add: split_on_def decodeJWT_def token_expiring_def sample_platform_def sample_payload_def)
  have x: "isTokenExpired sample_platform 1700000000000 token_expiring"
    by (simp add: isTokenExpired_def d2)
  have r: "refreshAccessToken
      (\<lambda>url client_id token. TokenFetchResponds True []
          (Some \<lparr>access_token = token_valid, refresh_token = ''refresh_2'',
                 expires_in = Some 3600, token_type = Some ''Bearer''\<rparr>))
      ''https://login.yotoplay.com'' ''client'' ''refresh_1'' 30000
     = Inr \<lparr>access_token = token_valid, refresh_token = ''refresh_2'',
                 expires_in = Some 3600, token_type = Some ''Bearer''\<rparr>"
    by (simp add: refreshAccessToken_def)
  show ?thesis
    using getAccessToken_refreshes_when_expired
      [where P = sample_platform and now = 1700000000000
         and endpoint = "\<lambda>url client_id token. TokenFetchResponds True []
          (Some \<lparr>access_token = token_valid, refresh_token = ''refresh_2'',
                 expires_in = Some 3600, token_type = Some ''Bearer''\<rparr>)"
         and authBaseUrl = "''https://login.yotoplay.com''" and clientId = "''client''"
         and timeout_ms = 30000
         and tokens = "\<lparr>access_token = token_expiring, refresh_token = ''refresh_1'',
            expires_in = Some 3600, token_type = Some ''Bearer''\<rparr>"
         and tokens' = "\<lparr>access_token = token_valid, refresh_token = ''refresh_2'',
            expires_in = Some 3600, token_type = Some ''Bearer''\<rparr>",
       THEN conjunct1]
      x r
    by simp
qed

text \<open>
  Claim C2 as stated fails for both providers. At 1700000000000 ms a
  \<open>StaticTokenProvider\<close> holding a token that expires in 20 seconds, which
  \<open>isTokenExpired\<close> counts as expired, returns that token without any refresh; and a
  \<open>RefreshableAuthProvider\<close> whose refresh is answered with such a token returns it
  after the refresh.
\<close>

theorem getAccessToken_expired_counterexample:
  "isTokenExpired sample_platform 1700000000000 token_expiring
   \<and> getAccessToken sample_platform 1700000000000
        (\<lambda>url client_id token. TokenFetchThrows ''TypeError'')
        (StaticTokenProvider token_expiring)
      = (Inr token_expiring, StaticTokenProvider token_expiring, [])
   \<and> fst (getAccessToken sample_platform 1700000000000
        (\<lambda>url client_id token. TokenFetchResponds True []
            (Some \<lparr>access_token = token_expiring, refresh_token = ''refresh_2'',
                   expires_in = Some 3600, token_type = Some ''Bearer''\<rparr>))
        (RefreshableAuthProvider ''https://login.yotoplay.com'' ''client'' 30000
            \<lparr>access_token = token_expiring, refresh_token = ''refresh_1'',
              expires_in = Some 3600, token_type = Some ''Bearer''\<rparr>))
      = Inr token_expiring"
proof -
  have d2: "decodeJWT sample_platform token_expiring = Inr (JObj [(''exp'', JNum 1700000020)])"
    by (simp add: split_on_def decodeJWT_def token_expiring_def sample_platform_def sample_payload_def)
  have x: "isTokenExpired sample_platform 1700000000000 token_expiring"
    by (simp add: isTokenExpired_def d2)
  show ?thesis
    by (simp add: x refreshAccessToken_def)
qed

end
